theory Spec2Isabelle
  imports Main "HOL-Library.Sublist" "HOL-Library.Word"
begin

section \<open>Errors and results\<close>

text \<open>
  A Go function returning \<open>error\<close> either returns \<open>nil\<close>, returns an error value, or
  panics. Error values are built with \<open>fmt.Errorf\<close>; the model keeps their message.
  A nil-pointer dereference is a run-time panic: it is no error value and carries the
  selector expression that was evaluated.
\<close>

datatype failure = Error string | Panic string

type_synonym 'a result = "failure + 'a"

section \<open>Image format names (part\_001, lines 24--39 and 342--353)\<close>

definition ImageFormatVhd :: string where "ImageFormatVhd = ''vhd''"
definition ImageFormatVhdx :: string where "ImageFormatVhdx = ''vhdx''"
definition ImageFormatQCow2 :: string where "ImageFormatQCow2 = ''qcow2''"
definition ImageFormatIso :: string where "ImageFormatIso = ''iso''"
definition ImageFormatRaw :: string where "ImageFormatRaw = ''raw''"
definition QemuFormatVpc :: string where "QemuFormatVpc = ''vpc''"

lemmas format_names =
  ImageFormatVhd_def ImageFormatVhdx_def ImageFormatQCow2_def ImageFormatIso_def
  ImageFormatRaw_def QemuFormatVpc_def

definition toQemuImageFormat :: "string \<Rightarrow> string result" where
  "toQemuImageFormat imageFormat =
     (if imageFormat = ImageFormatVhd then Inr QemuFormatVpc
      else if imageFormat = ImageFormatVhdx \<or> imageFormat = ImageFormatRaw
              \<or> imageFormat = ImageFormatQCow2 then Inr imageFormat
      else Inl (Error (''unsupported image format (supported: vhd, vhdx, raw, qcow2): ''
                       @ imageFormat)))"


section \<open>Go strings\<close>

text \<open>
  A Go string is a sequence of bytes, here a \<open>char list\<close>. \<open>strings.HasPrefix\<close>
  compares bytes.
\<close>

definition HasPrefix :: "string \<Rightarrow> string \<Rightarrow> bool" where
  "HasPrefix s p = prefix p s"

text \<open>
  \<open>strings.TrimSpace\<close> removes the leading and the trailing white space of a string,
  where white space is what \<open>unicode.IsSpace\<close> accepts: the six ASCII characters
  tab, line feed, vertical tab, form feed, carriage return and space, and the code points
  U+0085, U+00A0, U+1680, U+2000 to U+200A, U+2028, U+2029, U+202F, U+205F and U+3000.
  A code point is white space at the front (at the end) of a string exactly when the
  string starts (ends) with its UTF-8 encoding; a byte that starts no valid encoding
  decodes to U+FFFD, which is no white space.
\<close>

definition asciiSpace :: "string list" where
  "asciiSpace = map (\<lambda>c. [c]) [CHR 0x09, CHR 0x0A, CHR 0x0B, CHR 0x0C, CHR 0x0D, CHR 0x20]"

definition unicodeSpace :: "string list" where
  "unicodeSpace =
     [[CHR 0xC2, CHR 0x85], [CHR 0xC2, CHR 0xA0], [CHR 0xE1, CHR 0x9A, CHR 0x80]]
     @ map (\<lambda>c. [CHR 0xE2, CHR 0x80, c])
         [CHR 0x80, CHR 0x81, CHR 0x82, CHR 0x83, CHR 0x84, CHR 0x85, CHR 0x86, CHR 0x87,
          CHR 0x88, CHR 0x89, CHR 0x8A, CHR 0xA8, CHR 0xA9, CHR 0xAF]
     @ [[CHR 0xE2, CHR 0x81, CHR 0x9F], [CHR 0xE3, CHR 0x80, CHR 0x80]]"

definition whiteSpace :: "string list" where
  "whiteSpace = asciiSpace @ unicodeSpace"

lemma whiteSpace_nonempty: "e \<in> set whiteSpace \<Longrightarrow> e \<noteq> []"
  by (auto simp: whiteSpace_def asciiSpace_def unicodeSpace_def)

function TrimLeftSpace :: "string \<Rightarrow> string" where
  "TrimLeftSpace s =
     (case find (\<lambda>e. prefix e s) whiteSpace of
        None \<Rightarrow> s
      | Some e \<Rightarrow> TrimLeftSpace (drop (length e) s))"
  by pat_completeness auto
termination
proof (relation "measure length")
  fix s :: string and e :: string
  assume found: "find (\<lambda>e. prefix e s) whiteSpace = Some e"
  from found have "e \<in> set whiteSpace"
    by (auto simp: find_Some_iff)
  then have "e \<noteq> []"
    by (rule whiteSpace_nonempty)
  moreover from found have "length e \<le> length s"
    by (auto simp: find_Some_iff prefix_length_le)
  ultimately show "(drop (length e) s, s) \<in> measure length"
    by (cases e) simp_all
qed simp

function TrimRightSpace :: "string \<Rightarrow> string" where
  "TrimRightSpace s =
     (case find (\<lambda>e. suffix e s) whiteSpace of
        None \<Rightarrow> s
      | Some e \<Rightarrow> TrimRightSpace (take (length s - length e) s))"
  by pat_completeness auto
termination
proof (relation "measure length")
  fix s :: string and e :: string
  assume found: "find (\<lambda>e. suffix e s) whiteSpace = Some e"
  from found have "e \<in> set whiteSpace"
    by (auto simp: find_Some_iff)
  then have "e \<noteq> []"
    by (rule whiteSpace_nonempty)
  moreover from found have "length e \<le> length s"
    by (auto simp: find_Some_iff suffix_length_le)
  ultimately show "(take (length s - length e) s, s) \<in> measure length"
    by (cases e) simp_all
qed simp

declare TrimLeftSpace.simps [simp del] TrimRightSpace.simps [simp del]

definition TrimSpace :: "string \<Rightarrow> string" where
  "TrimSpace s = TrimRightSpace (TrimLeftSpace s)"

text \<open>
  \<open>strings.ToUpper\<close> on ASCII text: the letters \<open>a\<close> to \<open>z\<close> become \<open>A\<close> to
  \<open>Z\<close>, every other byte stays. The code applies it to identifier type names only.
\<close>

definition toUpperByte :: "char \<Rightarrow> char" where
  "toUpperByte c =
     (if (97 :: nat) \<le> of_char c \<and> of_char c \<le> (122 :: nat)
      then char_of (of_char c - (32 :: nat))
      else c)"

definition ToUpper :: "string \<Rightarrow> string" where
  "ToUpper s = map toUpperByte s"

section \<open>Partition identifiers (customizeverity.go, lines 172--206)\<close>

text \<open>
  Modelled from the spec: the declaration of \<open>imagecustomizerapi.IdType\<close> is not among
  the sources. It is a string type with the three identifier types PARTLABEL, UUID and
  PARTUUID, whose names upper-cased give the keys of the boot arguments.
\<close>

type_synonym IdType = string

definition IdTypePartlabel :: IdType where "IdTypePartlabel = ''partlabel''"
definition IdTypeUuid :: IdType where "IdTypeUuid = ''uuid''"
definition IdTypePartuuid :: IdType where "IdTypePartuuid = ''partuuid''"

lemmas IdType_names = IdTypePartlabel_def IdTypeUuid_def IdTypePartuuid_def

text \<open>
  Modelled from the spec: \<open>diskutils.PartitionInfo\<close>, one entry of the enumerated
  partition list, with the fields this code reads.
\<close>

record PartitionInfo =
  Path :: string
  PartLabel :: string
  Uuid :: string
  PartUuid :: string
  FileSystemType :: string

text \<open>
  The loop over \<open>diskPartitions\<close>; the switch on \<open>idType\<close> is inside the loop body,
  and the statement after the loop is reached when the list is exhausted.
\<close>

fun idToPartitionBlockDevicePath ::
  "IdType \<Rightarrow> string \<Rightarrow> string \<Rightarrow> PartitionInfo list \<Rightarrow> string result" where
  "idToPartitionBlockDevicePath idType ident nbdDevice [] =
     Inl (Error (''no partition found for '' @ idType @ '': '' @ ident))"
| "idToPartitionBlockDevicePath idType ident nbdDevice (part # diskPartitions) =
     (if idType = IdTypePartlabel then
        (if PartLabel part = ident then Inr (Path part)
         else idToPartitionBlockDevicePath idType ident nbdDevice diskPartitions)
      else if idType = IdTypeUuid then
        (if Uuid part = ident then Inr (Path part)
         else idToPartitionBlockDevicePath idType ident nbdDevice diskPartitions)
      else if idType = IdTypePartuuid then
        (if PartUuid part = ident then Inr (Path part)
         else idToPartitionBlockDevicePath idType ident nbdDevice diskPartitions)
      else Inl (Error (''invalid idType provided ('' @ idType @ '')'')))"

definition systemdFormatPartitionId :: "IdType \<Rightarrow> string \<Rightarrow> string result" where
  "systemdFormatPartitionId idType ident =
     (if idType = IdTypePartlabel \<or> idType = IdTypeUuid \<or> idType = IdTypePartuuid
      then Inr (ToUpper idType @ ''='' @ ident)
      else Inl (Error (''invalid idType provided ('' @ idType @ '')'')))"


section \<open>The configuration document\<close>

text \<open>
  Modelled from the spec: the types of package \<open>imagecustomizerapi\<close> are not among the
  sources. The root record has the optional sections \<open>Storage\<close>, \<open>Iso\<close> and \<open>OS\<close>
  (pointers in the code, \<open>None\<close> for \<open>nil\<close>); the fields are those the code reads.
  A Go map is iterated in an order of its own, so a map is given as the list of its entries
  in the order the loop visits them. The content of \<open>Storage\<close> is read by
  \<open>customizePartitions\<close> only, which is not among the sources.
\<close>

datatype Storage = StorageSection

record Script =
  ScriptPath :: string

record IdentifiedPartition =
  PartitionIdType :: IdType
  PartitionId :: string

record Verity =
  DataPartition :: IdentifiedPartition
  HashPartition :: IdentifiedPartition

record Packages =
  UpdateExistingPackages :: bool
  InstallLists :: "string list"
  Install :: "string list"
  RemoveLists :: "string list"
  Remove :: "string list"
  UpdateLists :: "string list"
  Update :: "string list"

record OS =
  Packages :: Packages
  AdditionalFiles :: "(string \<times> string) list"
  PostInstallScripts :: "Script list"
  FinalizeImageScripts :: "Script list"
  Verity :: "Verity option"

record Iso =
  IsoAdditionalFiles :: "(string \<times> string) list"

record Config =
  Storage :: "Storage option"
  Iso :: "Iso option"
  OS :: "OS option"

datatype LiveOSIsoBuilder = IsoBuilderOf string

section \<open>External calls, their answers, and the state they act on\<close>

text \<open>
  Everything the code asks of the operating system, of external tools and of packages that
  are not among the sources is a \<open>call\<close> with its arguments. An environment fixes what
  each call answers: the error it fails with (\<open>None\<close> for success) and the value it
  returns. The state holds the text files by path, each as its list of lines, and the log
  of the calls that change something, oldest first.
\<close>

datatype call =
    Exec "string list"
  | Lib string "string list"
  | ConfigIsValid Config
  | CollectPackagesList string "string list" "string list"
  | CustomizePartitions string string Config string
  | DoCustomizations string string Config string "string list" bool bool
  | CreateWriteableImageFromSquashfs LiveOSIsoBuilder string string
  | CreateLiveOSIsoImage string string "Iso option" string string string
  | RecreateLiveOSIsoImage "LiveOSIsoBuilder option" string "Iso option" string string
  | FindSystemBootPartition "PartitionInfo list"
  | FindBootPartitionFromEsp PartitionInfo "PartitionInfo list" string

text \<open>The calls whose arguments are all strings, by the name of the function called.\<close>

abbreviation MkdirAll :: "string \<Rightarrow> call" where
  "MkdirAll path \<equiv> Lib ''os.MkdirAll'' [path]"
abbreviation TempDir :: "string \<Rightarrow> string \<Rightarrow> call" where
  "TempDir dir pattern \<equiv> Lib ''ioutil.TempDir'' [dir, pattern]"
abbreviation Stat :: "string \<Rightarrow> call" where
  "Stat path \<equiv> Lib ''os.Stat'' [path]"
abbreviation Glob :: "string \<Rightarrow> call" where
  "Glob pattern \<equiv> Lib ''filepath.Glob'' [pattern]"
abbreviation FilepathAbs :: "string \<Rightarrow> call" where
  "FilepathAbs path \<equiv> Lib ''filepath.Abs'' [path]"
abbreviation FilepathJoin :: "string \<Rightarrow> string \<Rightarrow> call" where
  "FilepathJoin a b \<equiv> Lib ''filepath.Join'' [a, b]"
abbreviation FilepathBase :: "string \<Rightarrow> call" where
  "FilepathBase path \<equiv> Lib ''filepath.Base'' [path]"
abbreviation FilepathDir :: "string \<Rightarrow> call" where
  "FilepathDir path \<equiv> Lib ''filepath.Dir'' [path]"
abbreviation FilepathIsLocal :: "string \<Rightarrow> call" where
  "FilepathIsLocal path \<equiv> Lib ''filepath.IsLocal'' [path]"
abbreviation ReadLines :: "string \<Rightarrow> call" where
  "ReadLines path \<equiv> Lib ''file.ReadLines'' [path]"
abbreviation WriteLines :: "string \<Rightarrow> call" where
  "WriteLines path \<equiv> Lib ''file.WriteLines'' [path]"
abbreviation IsFile :: "string \<Rightarrow> call" where
  "IsFile path \<equiv> Lib ''file.IsFile'' [path]"
abbreviation GetAbsPathWithBase :: "string \<Rightarrow> string \<Rightarrow> call" where
  "GetAbsPathWithBase base path \<equiv> Lib ''file.GetAbsPathWithBase'' [base, path]"
abbreviation RemoveFileIfExists :: "string \<Rightarrow> call" where
  "RemoveFileIfExists path \<equiv> Lib ''file.RemoveFileIfExists'' [path]"
abbreviation CopyIsoImageContentsToFolder :: "string \<Rightarrow> string \<Rightarrow> string \<Rightarrow> call" where
  "CopyIsoImageContentsToFolder buildDir isoFile folder \<equiv>
     Lib ''copyIsoImageContentsToFolder'' [buildDir, isoFile, folder]"
abbreviation IsoBuilderFromFolder :: "string \<Rightarrow> string \<Rightarrow> call" where
  "IsoBuilderFromFolder buildDir folder \<equiv> Lib ''isoBuilderFromFolder'' [buildDir, folder]"
abbreviation ConnectToExistingImage :: "string \<Rightarrow> string \<Rightarrow> string \<Rightarrow> call" where
  "ConnectToExistingImage img buildDir name \<equiv>
     Lib ''connectToExistingImage'' [img, buildDir, name]"
abbreviation ImageConnectionCleanClose :: "string \<Rightarrow> call" where
  "ImageConnectionCleanClose img \<equiv> Lib ''ImageConnection.CleanClose'' [img]"
abbreviation ImageConnectionClose :: "string \<Rightarrow> call" where
  "ImageConnectionClose img \<equiv> Lib ''ImageConnection.Close'' [img]"
abbreviation NewLoopback :: "string \<Rightarrow> call" where
  "NewLoopback img \<equiv> Lib ''safeloopback.NewLoopback'' [img]"
abbreviation LoopbackDevicePath :: "string \<Rightarrow> call" where
  "LoopbackDevicePath img \<equiv> Lib ''Loopback.DevicePath'' [img]"
abbreviation LoopbackCleanClose :: "string \<Rightarrow> call" where
  "LoopbackCleanClose img \<equiv> Lib ''Loopback.CleanClose'' [img]"
abbreviation LoopbackClose :: "string \<Rightarrow> call" where
  "LoopbackClose img \<equiv> Lib ''Loopback.Close'' [img]"
abbreviation ShrinkFilesystems :: "string \<Rightarrow> call" where
  "ShrinkFilesystems device \<equiv> Lib ''shrinkFilesystems'' [device]"
abbreviation ExtractPartitions :: "string \<Rightarrow> string \<Rightarrow> string \<Rightarrow> string \<Rightarrow> call" where
  "ExtractPartitions device outDir base format \<equiv>
     Lib ''extractPartitions'' [device, outDir, base, format]"
abbreviation CheckFileSystems :: "string \<Rightarrow> call" where
  "CheckFileSystems img \<equiv> Lib ''checkFileSystems'' [img]"
abbreviation GetDiskPartitions :: "string \<Rightarrow> call" where
  "GetDiskPartitions device \<equiv> Lib ''diskutils.GetDiskPartitions'' [device]"
abbreviation NewMount :: "string \<Rightarrow> string \<Rightarrow> string \<Rightarrow> call" where
  "NewMount source target fstype \<equiv> Lib ''safemount.NewMount'' [source, target, fstype]"
abbreviation MountCleanClose :: "string \<Rightarrow> call" where
  "MountCleanClose target \<equiv> Lib ''Mount.CleanClose'' [target]"
abbreviation MountClose :: "string \<Rightarrow> call" where
  "MountClose target \<equiv> Lib ''Mount.Close'' [target]"

record env =
  failsWith :: "call \<Rightarrow> string option"
  str :: "call \<Rightarrow> string"
  strs :: "call \<Rightarrow> string list"
  flag :: "call \<Rightarrow> bool"
  num :: "call \<Rightarrow> nat"
  part :: "call \<Rightarrow> PartitionInfo"
  parts :: "call \<Rightarrow> PartitionInfo list"

record world =
  files :: "string \<rightharpoonup> string list"
  trace :: "call list"

type_synonym ('s, 'a) act = "'s \<Rightarrow> 'a result \<times> 's"

type_synonym 'a action = "(world, 'a) act"

definition ret :: "'a \<Rightarrow> ('s, 'a) act" where
  "ret x = (\<lambda>w. (Inr x, w))"

definition lift :: "'a result \<Rightarrow> ('s, 'a) act" where
  "lift r = (\<lambda>w. (r, w))"

definition andThen :: "('s, 'a) act \<Rightarrow> ('a \<Rightarrow> ('s, 'b) act) \<Rightarrow> ('s, 'b) act" where
  "andThen m f = (\<lambda>w. case m w of (Inl e, w') \<Rightarrow> (Inl e, w') | (Inr x, w') \<Rightarrow> f x w')"

definition bindR :: "'a result \<Rightarrow> ('a \<Rightarrow> 'b result) \<Rightarrow> 'b result" where
  "bindR r f = (case r of Inl e \<Rightarrow> Inl e | Inr x \<Rightarrow> f x)"

text \<open>An answer without effect: the error of the call, or nothing.\<close>

definition ask :: "env \<Rightarrow> call \<Rightarrow> unit result" where
  "ask E c = (case failsWith E c of None \<Rightarrow> Inr () | Some m \<Rightarrow> Inl (Error m))"

text \<open>A call with an effect is logged, whether it fails or not.\<close>

definition extern :: "env \<Rightarrow> call \<Rightarrow> unit action" where
  "extern E c = (\<lambda>w. (ask E c, w\<lparr>trace := trace w @ [c]\<rparr>))"

text \<open>
  \<open>fmt.Errorf(prefix + "%w", err)\<close> and its \<open>%v\<close> and \<open>%s\<close> variants put a text in
  front of the message of an error; a panic passes through.
\<close>

definition wrapResult :: "string \<Rightarrow> 'a result \<Rightarrow> 'a result" where
  "wrapResult pre r = (case r of Inl (Error m) \<Rightarrow> Inl (Error (pre @ m)) | _ \<Rightarrow> r)"

definition wrap :: "string \<Rightarrow> ('s, 'a) act \<Rightarrow> ('s, 'a) act" where
  "wrap pre m = (\<lambda>w. case m w of (r, w') \<Rightarrow> (wrapResult pre r, w'))"

text \<open>
  \<open>defer\<close>: the deferred call runs when the rest of the function is left, by return, by
  error or by panic; what it returns is dropped.
\<close>

definition deferred :: "('s, 'a) act \<Rightarrow> ('s, 'b) act \<Rightarrow> ('s, 'a) act" where
  "deferred m d = (\<lambda>w. case m w of (r, w') \<Rightarrow> (r, snd (d w')))"

text \<open>
  Modelled from the spec: \<open>file.ReadLines\<close> reads a text file into its lines and
  \<open>file.WriteLines\<close> writes lines back (package \<open>internal/file\<close> is not among the
  sources). Reading fails for a path that holds no file, and either fails when the
  environment says so.
\<close>

definition readLines :: "env \<Rightarrow> string \<Rightarrow> string list action" where
  "readLines E path = (\<lambda>w.
     case failsWith E (ReadLines path) of
       Some m \<Rightarrow> (Inl (Error m), w)
     | None \<Rightarrow>
        (case files w path of
           None \<Rightarrow> (Inl (Error (''open '' @ path @ '': no such file or directory'')), w)
         | Some ls \<Rightarrow> (Inr ls, w)))"

definition writeLines :: "env \<Rightarrow> string list \<Rightarrow> string \<Rightarrow> unit action" where
  "writeLines E ls path = (\<lambda>w.
     case failsWith E (WriteLines path) of
       Some m \<Rightarrow> (Inl (Error m), w)
     | None \<Rightarrow> (Inr (), w\<lparr>files := (files w)(path \<mapsto> ls)\<rparr>))"

section \<open>The boot-loader configuration (customizeverity.go, lines 124--170)\<close>

text \<open>
  The loop of \<open>updateGrubConfig\<close> over the lines read, with \<open>updatedLines\<close> as it
  grows. Both tests are made on the trimmed text of the line as read; the second
  assignment replaces whatever the first one produced.
\<close>

fun updateGrubLines :: "string \<Rightarrow> string list \<Rightarrow> string list \<Rightarrow> string list" where
  "updateGrubLines newArgs [] updatedLines = updatedLines"
| "updateGrubLines newArgs (line # rest) updatedLines =
     (let trimmedLine = TrimSpace line;
          line1 = (if HasPrefix trimmedLine ''linux '' then line @ '' '' @ newArgs else line);
          line2 = (if HasPrefix trimmedLine ''set rootdevice=PARTUUID=''
                   then ''set rootdevice=/dev/mapper/root'' else line1)
      in updateGrubLines newArgs rest (updatedLines @ [line2]))"

definition updateGrubConfig ::
  "env \<Rightarrow> IdType \<Rightarrow> string \<Rightarrow> IdType \<Rightarrow> string \<Rightarrow> string \<Rightarrow> string \<Rightarrow> unit action" where
  "updateGrubConfig E dataPartitionIdType dataPartitionId hashPartitionIdType hashPartitionId
       rootHash grubCfgFullPath =
     andThen (lift (systemdFormatPartitionId dataPartitionIdType dataPartitionId))
       (\<lambda>formattedDataPartition.
     andThen (lift (systemdFormatPartitionId hashPartitionIdType hashPartitionId))
       (\<lambda>formattedHashPartition.
     let newArgs = ''rd.systemd.verity=1 roothash='' @ rootHash
           @ '' systemd.verity_root_data='' @ formattedDataPartition
           @ '' systemd.verity_root_hash='' @ formattedHashPartition
           @ '' systemd.verity_root_options=panic-on-corruption''
     in
     andThen (wrap ''failed to read grub config: '' (readLines E grubCfgFullPath))
       (\<lambda>lines.
     andThen (wrap ''failed to write updated grub config: ''
                (writeLines E (updateGrubLines newArgs lines []) grubCfgFullPath))
       (\<lambda>_. ret ()))))"

text \<open>An environment in which no call fails and every answer is empty.\<close>

definition quietEnv :: env where
  "quietEnv = \<lparr>failsWith = (\<lambda>_. None), str = (\<lambda>_. []), strs = (\<lambda>_. []),
     flag = (\<lambda>_. True), num = (\<lambda>_. 0),
     part = (\<lambda>_. \<lparr>Path = [], PartLabel = [], Uuid = [], PartUuid = [], FileSystemType = []\<rparr>),
     parts = (\<lambda>_. [])\<rparr>"

section \<open>The root hash in the output of veritysetup (part\_001, lines 622--633)\<close>

text \<open>
  The regular expression \<^verbatim>\<open>Root hash:\s+([0-9a-fA-F]+)\<close> of Go's package \<open>regexp\<close>:
  \<^verbatim>\<open>\s\<close> is one of tab, line feed, form feed, carriage return and space. The pattern
  is a constant that compiles, so the error branch of \<open>regexp.Compile\<close> is never taken.
\<close>

definition reSpace :: "char \<Rightarrow> bool" where
  "reSpace c \<longleftrightarrow> c \<in> set [CHR 0x09, CHR 0x0A, CHR 0x0C, CHR 0x0D, CHR 0x20]"

definition reHex :: "char \<Rightarrow> bool" where
  "reHex c \<longleftrightarrow> c \<in> set ''0123456789abcdefABCDEF''"

text \<open>
  A match that starts at the front of the text: the literal, then the white space, as much
  as there is, then the hexadecimal digits, as many as there are; both runs are greedy and
  the two classes share no character, so giving back white space never helps. The answer
  is the matched text and the first group.
\<close>

definition matchRootHashHere :: "string \<Rightarrow> (string \<times> string) option" where
  "matchRootHashHere s =
     (if prefix ''Root hash:'' s then
        (let r = drop (length ''Root hash:'') s;
             ws = takeWhile reSpace r;
             h = takeWhile reHex (dropWhile reSpace r)
         in if ws \<noteq> [] \<and> h \<noteq> [] then Some (''Root hash:'' @ ws @ h, h) else None)
      else None)"

text \<open>
  \<open>rootHashRegex.FindStringSubmatch\<close>: the leftmost match, as the list of the matched
  text and the first group, and the empty list (\<open>nil\<close>) when the text has no match.
\<close>

fun FindStringSubmatch :: "string \<Rightarrow> string list" where
  "FindStringSubmatch [] = []"
| "FindStringSubmatch (c # s) =
     (case matchRootHashHere (c # s) of
        Some (whole, group1) \<Rightarrow> [whole, group1]
      | None \<Rightarrow> FindStringSubmatch s)"

definition parseRootHash :: "string \<Rightarrow> string result" where
  "parseRootHash verityOutput =
     (let rootHashMatches = FindStringSubmatch verityOutput in
      if length rootHashMatches \<le> 1
      then Inl (Error ''failed to parse root hash from veritysetup output'')
      else Inr (rootHashMatches ! 1))"

text \<open>
  What it means for a text to hold a match of the regular expression, in the words of the
  specification: the text is \<open>pre\<close>, the literal, one or more white-space characters
  \<open>ws\<close>, one or more hexadecimal digits \<open>h\<close> (the first group), and \<open>post\<close>.
\<close>

definition rootHashMatch :: "string \<Rightarrow> string \<Rightarrow> string \<Rightarrow> string \<Rightarrow> string \<Rightarrow> bool" where
  "rootHashMatch s pre ws h post \<longleftrightarrow>
     s = pre @ ''Root hash:'' @ ws @ h @ post
     \<and> ws \<noteq> [] \<and> list_all reSpace ws \<and> h \<noteq> [] \<and> list_all reHex h"

section \<open>Enabling dm-verity (customizeverity.go, lines 208--224; part\_001, lines 577--669)\<close>

abbreviation StatIsNotExist :: "string \<Rightarrow> call" where
  "StatIsNotExist path \<equiv> Lib ''os.IsNotExist(os.Stat)'' [path]"

fun findFreeNBDDeviceLoop :: "env \<Rightarrow> string list \<Rightarrow> string result" where
  "findFreeNBDDeviceLoop E [] = Inl (Error ''no free nbd devices available'')"
| "findFreeNBDDeviceLoop E (file # rest) =
     (let pidFile = str E (FilepathJoin file ''pid'') in
      if flag E (StatIsNotExist pidFile) then Inr (''/dev/'' @ str E (FilepathBase file))
      else findFreeNBDDeviceLoop E rest)"

definition findFreeNBDDevice :: "env \<Rightarrow> string result" where
  "findFreeNBDDevice E =
     (case failsWith E (Glob ''/sys/class/block/nbd*'') of
        Some m \<Rightarrow> Inl (Error m)
      | None \<Rightarrow> findFreeNBDDeviceLoop E (strs E (Glob ''/sys/class/block/nbd*'')))"

definition tmpParitionDirName :: string where
  "tmpParitionDirName = ''tmppartition''"

text \<open>
  \<open>config.OS.Verity.DataPartition\<close> reads through two pointers; either being \<open>nil\<close>
  is a nil-pointer dereference.
\<close>

definition verityOf :: "Config \<Rightarrow> Verity result" where
  "verityOf config =
     (case OS config of
        None \<Rightarrow> Inl (Panic ''nil pointer dereference: config.OS.Verity'')
      | Some os \<Rightarrow>
         (case Verity os of
            None \<Rightarrow> Inl (Panic ''nil pointer dereference: config.OS.Verity.DataPartition'')
          | Some v \<Rightarrow> Inr v))"

text \<open>
  The two deferred calls, detaching the device and closing the mount, run in the reverse
  order of their registration. The test of \<open>err\<close> after \<open>filepath.Join\<close> (line 653)
  reads an \<open>err\<close> that is \<open>nil\<close> there and is left out.
\<close>

definition customizeVerityImageHelper ::
  "env \<Rightarrow> string \<Rightarrow> string \<Rightarrow> Config \<Rightarrow> string \<Rightarrow> string list \<Rightarrow> bool \<Rightarrow> unit action" where
  "customizeVerityImageHelper E buildDir baseConfigPath config buildImageFile rpmsSources
       useBaseImageRpmRepos =
     andThen (wrap ''failed to find a free nbd device: '' (lift (findFreeNBDDevice E)))
       (\<lambda>nbdDevice.
     andThen (wrap (''failed to connect nbd '' @ nbdDevice @ '' to image '' @ buildImageFile
                    @ '': '')
               (extern E (Exec [''qemu-nbd'', ''-c'', nbdDevice, ''-f'', ''raw'', buildImageFile])))
       (\<lambda>_.
     deferred
      (andThen (lift (ask E (GetDiskPartitions nbdDevice)))
         (\<lambda>_.
       let diskPartitions = parts E (GetDiskPartitions nbdDevice) in
       andThen (lift (verityOf config))
         (\<lambda>verity.
       andThen (lift (idToPartitionBlockDevicePath
                        (PartitionIdType (DataPartition verity))
                        (PartitionId (DataPartition verity)) nbdDevice diskPartitions))
         (\<lambda>dataPartition.
       andThen (lift (idToPartitionBlockDevicePath
                        (PartitionIdType (HashPartition verity))
                        (PartitionId (HashPartition verity)) nbdDevice diskPartitions))
         (\<lambda>hashPartition.
       andThen (wrap (''failed to calculate root hash:'' @ [CHR 0x0A])
                 (extern E (Exec [''veritysetup'', ''format'', dataPartition, hashPartition])))
         (\<lambda>_.
       let verityOutput = str E (Exec [''veritysetup'', ''format'', dataPartition, hashPartition])
       in
       andThen (lift (parseRootHash verityOutput))
         (\<lambda>rootHash.
       andThen (lift (ask E (FindSystemBootPartition diskPartitions)))
         (\<lambda>_.
       let systemBootPartition = part E (FindSystemBootPartition diskPartitions) in
       andThen (extern E (FindBootPartitionFromEsp systemBootPartition diskPartitions buildDir))
         (\<lambda>_.
       let bootPartition =
             part E (FindBootPartitionFromEsp systemBootPartition diskPartitions buildDir);
           bootPartitionTmpDir = str E (FilepathJoin buildDir tmpParitionDirName)
       in
       andThen (wrap (''failed to mount partition ('' @ Path bootPartition @ ''):'' @ [CHR 0x0A])
                 (extern E (NewMount (Path bootPartition) bootPartitionTmpDir
                              (FileSystemType bootPartition))))
         (\<lambda>_.
       deferred
        (let grubCfgFullPath = str E (FilepathJoin bootPartitionTmpDir ''grub2/grub.cfg'') in
         andThen (updateGrubConfig E
                    (PartitionIdType (DataPartition verity)) (PartitionId (DataPartition verity))
                    (PartitionIdType (HashPartition verity)) (PartitionId (HashPartition verity))
                    rootHash grubCfgFullPath)
           (\<lambda>_.
         andThen (extern E (MountCleanClose bootPartitionTmpDir))
           (\<lambda>_. ret ())))
        (extern E (MountClose bootPartitionTmpDir))))))))))))
      (extern E (Exec [''qemu-nbd'', ''-d'', nbdDevice]))))"

section \<open>Validating the configuration (part\_001, lines 355--509)\<close>

text \<open>\<open>%d\<close> of \<open>fmt\<close>: a natural number in decimal digits.\<close>

function showNat :: "nat \<Rightarrow> string" where
  "showNat n =
     (if n < 10 then [char_of (48 + n)]
      else showNat (n div 10) @ [char_of (48 + n mod 10)])"
  by pat_completeness auto
termination
  by (relation "measure id") auto

declare showNat.simps [simp del]

text \<open>
  \<open>errors.Join\<close> of the errors collected so far and one more: the messages, one per
  line.
\<close>

definition errorsJoin :: "string option \<Rightarrow> string \<Rightarrow> string option" where
  "errorsJoin aggregateErr m =
     (case aggregateErr of None \<Rightarrow> Some m | Some a \<Rightarrow> Some (a @ [CHR 0x0A] @ m))"

definition hasPartitionCustomizations :: "Config \<Rightarrow> bool" where
  "hasPartitionCustomizations config \<longleftrightarrow> Storage config \<noteq> None"

fun validateAdditionalFilesLoop ::
  "env \<Rightarrow> string \<Rightarrow> (string \<times> string) list \<Rightarrow> string option \<Rightarrow> string option" where
  "validateAdditionalFilesLoop E baseConfigPath [] aggregateErr = aggregateErr"
| "validateAdditionalFilesLoop E baseConfigPath ((sourceFile, dest) # rest) aggregateErr =
     (let sourceFileFullPath = str E (GetAbsPathWithBase baseConfigPath sourceFile);
          isFile = flag E (IsFile sourceFileFullPath);
          agg1 = (case failsWith E (IsFile sourceFileFullPath) of
                    Some m \<Rightarrow> errorsJoin aggregateErr
                      (''invalid additionalFiles source file ('' @ sourceFile @ ''):''
                       @ [CHR 0x0A] @ m)
                  | None \<Rightarrow> aggregateErr);
          agg2 = (if \<not> isFile
                  then errorsJoin agg1
                    (''invalid additionalFiles source file ('' @ sourceFile @ ''): not a file'')
                  else agg1)
      in validateAdditionalFilesLoop E baseConfigPath rest agg2)"

definition validateAdditionalFiles ::
  "env \<Rightarrow> string \<Rightarrow> (string \<times> string) list \<Rightarrow> unit result" where
  "validateAdditionalFiles E baseConfigPath additionalFiles =
     (case validateAdditionalFilesLoop E baseConfigPath additionalFiles None of
        None \<Rightarrow> Inr ()
      | Some m \<Rightarrow> Inl (Error m))"

definition validateIsoConfig :: "env \<Rightarrow> string \<Rightarrow> Iso option \<Rightarrow> unit result" where
  "validateIsoConfig E baseConfigPath config =
     (case config of
        None \<Rightarrow> Inr ()
      | Some isoConfig \<Rightarrow>
         validateAdditionalFiles E baseConfigPath (IsoAdditionalFiles isoConfig))"

text \<open>The mode bits \<open>0111\<close> are 73.\<close>

definition validateScript :: "env \<Rightarrow> string \<Rightarrow> Script \<Rightarrow> unit result" where
  "validateScript E baseConfigPath script =
     (if \<not> flag E (FilepathIsLocal (ScriptPath script))
      then Inl (Error (''install script ('' @ ScriptPath script
                       @ '') is not under config directory ('' @ baseConfigPath @ '')''))
      else
        (let fullPath = str E (FilepathJoin baseConfigPath (ScriptPath script)) in
         case failsWith E (Stat fullPath) of
           Some m \<Rightarrow> Inl (Error (''couldn't read install script ('' @ ScriptPath script
                                 @ ''):'' @ [CHR 0x0A] @ m))
         | None \<Rightarrow>
            if and (num E (Stat fullPath)) 73 = 0
            then Inl (Error (''install script ('' @ ScriptPath script
                             @ '') does not have executable bit set''))
            else Inr ()))"

text \<open>
  The two loops over \<open>PostInstallScripts\<close> and \<open>FinalizeImageScripts\<close>, which differ
  in the name of the list in the message.
\<close>

fun validateScriptsLoop :: "env \<Rightarrow> string \<Rightarrow> string \<Rightarrow> nat \<Rightarrow> Script list \<Rightarrow> unit result" where
  "validateScriptsLoop E baseConfigPath listName i [] = Inr ()"
| "validateScriptsLoop E baseConfigPath listName i (script # rest) =
     (case validateScript E baseConfigPath script of
        Inl e \<Rightarrow> wrapResult (''invalid '' @ listName @ '' item at index '' @ showNat i @ '': '')
                   (Inl e)
      | Inr _ \<Rightarrow> validateScriptsLoop E baseConfigPath listName (Suc i) rest)"

text \<open>
  \<open>collectPackagesList\<close> is not among the sources: the environment answers with the
  merged list, or with the error of a list file that cannot be read.
\<close>

definition collectPackagesList ::
  "env \<Rightarrow> string \<Rightarrow> string list \<Rightarrow> string list \<Rightarrow> string list result" where
  "collectPackagesList E baseConfigPath packageLists packages =
     (case failsWith E (CollectPackagesList baseConfigPath packageLists packages) of
        Some m \<Rightarrow> Inl (Error m)
      | None \<Rightarrow> Inr (strs E (CollectPackagesList baseConfigPath packageLists packages)))"

text \<open>
  \<open>config\<close> is a pointer to the \<open>OS\<close> section; reading \<open>config.Packages\<close> through a
  \<open>nil\<close> pointer panics. The function stores the merged lists in the section it was
  given; the model returns the section as it is after the call.
\<close>

definition validatePackageLists ::
  "env \<Rightarrow> string \<Rightarrow> OS option \<Rightarrow> string list \<Rightarrow> bool \<Rightarrow> bool \<Rightarrow> OS result" where
  "validatePackageLists E baseConfigPath config rpmsSources useBaseImageRpmRepos
       partitionsCustomized =
     (case config of
        None \<Rightarrow> Inl (Panic ''nil pointer dereference: config.Packages'')
      | Some os \<Rightarrow>
         bindR (collectPackagesList E baseConfigPath
                  (RemoveLists (Packages os)) (Remove (Packages os)))
           (\<lambda>allPackagesRemove.
         bindR (collectPackagesList E baseConfigPath
                  (InstallLists (Packages os)) (Install (Packages os)))
           (\<lambda>allPackagesInstall.
         bindR (collectPackagesList E baseConfigPath
                  (UpdateLists (Packages os)) (Update (Packages os)))
           (\<lambda>allPackagesUpdate.
         let hasRpmSources = (length rpmsSources > 0 \<or> useBaseImageRpmRepos);
             needRpmsSources = (length allPackagesInstall > 0 \<or> length allPackagesUpdate > 0
                                \<or> UpdateExistingPackages (Packages os))
         in
         if \<not> hasRpmSources \<and> needRpmsSources
         then Inl (Error
           ''have packages to install or update but no RPM sources were specified'')
         else if \<not> hasRpmSources \<and> partitionsCustomized
         then Inl (Error
           ''partitions were customized so the initramfs package needs to be reinstalled but no RPM sources were specified'')
         else Inr (os\<lparr>Packages := (Packages os)
                     \<lparr>Remove := allPackagesRemove, Install := allPackagesInstall,
                      Update := allPackagesUpdate,
                      RemoveLists := [], InstallLists := [], UpdateLists := []\<rparr>\<rparr>)))))"

definition validateSystemConfig ::
  "env \<Rightarrow> string \<Rightarrow> OS option \<Rightarrow> string list \<Rightarrow> bool \<Rightarrow> bool \<Rightarrow> OS result" where
  "validateSystemConfig E baseConfigPath config rpmsSources useBaseImageRpmRepos
       partitionsCustomized =
     bindR (validatePackageLists E baseConfigPath config rpmsSources useBaseImageRpmRepos
              partitionsCustomized)
       (\<lambda>os.
     bindR (validateAdditionalFiles E baseConfigPath (AdditionalFiles os))
       (\<lambda>_.
     bindR (validateScriptsLoop E baseConfigPath ''PostInstallScripts'' 0 (PostInstallScripts os))
       (\<lambda>_.
     bindR (validateScriptsLoop E baseConfigPath ''FinalizeImageScripts'' 0
              (FinalizeImageScripts os))
       (\<lambda>_. Inr os))))"

definition validateConfig ::
  "env \<Rightarrow> string \<Rightarrow> Config \<Rightarrow> string list \<Rightarrow> bool \<Rightarrow> Config result" where
  "validateConfig E baseConfigPath config rpmsSources useBaseImageRpmRepos =
     bindR (ask E (ConfigIsValid config))
       (\<lambda>_.
     let partitionsCustomized = hasPartitionCustomizations config in
     bindR (validateIsoConfig E baseConfigPath (Iso config))
       (\<lambda>_.
     bindR (validateSystemConfig E baseConfigPath (OS config) rpmsSources useBaseImageRpmRepos
              partitionsCustomized)
       (\<lambda>os. Inr (config\<lparr>OS := Some os\<rparr>))))"

section \<open>The customization pipeline (part\_001, lines 75--353 and 511--575)\<close>

definition BaseImageName :: string where
  "BaseImageName = ''image.raw''"

text \<open>\<open>filepath.Ext\<close>: the text from the last dot of the last path element on.\<close>

fun extFrom :: "string \<Rightarrow> string \<Rightarrow> string" where
  "extFrom [] scanned = []"
| "extFrom (c # r) scanned =
     (if c = CHR ''/'' then []
      else if c = CHR ''.'' then c # scanned
      else extFrom r (c # scanned))"

definition filepathExt :: "string \<Rightarrow> string" where
  "filepathExt path = extFrom (rev path) []"

definition TrimSuffix :: "string \<Rightarrow> string \<Rightarrow> string" where
  "TrimSuffix s suf = (if suffix suf s then take (length s - length suf) s else s)"

definition customizeImageHelper ::
  "env \<Rightarrow> string \<Rightarrow> string \<Rightarrow> Config \<Rightarrow> string \<Rightarrow> string list \<Rightarrow> bool \<Rightarrow> bool
     \<Rightarrow> unit action" where
  "customizeImageHelper E buildDir baseConfigPath config rawImageFile rpmsSources
       useBaseImageRpmRepos partitionsCustomized =
     andThen (extern E (ConnectToExistingImage rawImageFile buildDir ''imageroot''))
       (\<lambda>_.
     deferred
      (andThen (extern E (DoCustomizations buildDir baseConfigPath config rawImageFile
                            rpmsSources useBaseImageRpmRepos partitionsCustomized))
         (\<lambda>_.
       andThen (extern E (ImageConnectionCleanClose rawImageFile))
         (\<lambda>_. ret ())))
      (extern E (ImageConnectionClose rawImageFile)))"

definition extractPartitionsHelper ::
  "env \<Rightarrow> string \<Rightarrow> string \<Rightarrow> string \<Rightarrow> string \<Rightarrow> unit action" where
  "extractPartitionsHelper E rawImageFile outputDir outputBasename outputSplitPartitionsFormat =
     andThen (extern E (NewLoopback rawImageFile))
       (\<lambda>_.
     deferred
      (andThen (extern E (ExtractPartitions (str E (LoopbackDevicePath rawImageFile))
                            outputDir outputBasename outputSplitPartitionsFormat))
         (\<lambda>_.
       andThen (extern E (LoopbackCleanClose rawImageFile))
         (\<lambda>_. ret ())))
      (extern E (LoopbackClose rawImageFile)))"

definition shrinkFilesystemsHelper :: "env \<Rightarrow> string \<Rightarrow> unit action" where
  "shrinkFilesystemsHelper E buildImageFile =
     andThen (extern E (NewLoopback buildImageFile))
       (\<lambda>_.
     deferred
      (andThen (extern E (ShrinkFilesystems (str E (LoopbackDevicePath buildImageFile))))
         (\<lambda>_.
       andThen (extern E (LoopbackCleanClose buildImageFile))
         (\<lambda>_. ret ())))
      (extern E (LoopbackClose buildImageFile)))"

record CommonParameters =
  buildDir :: string
  buildDirAbs :: string
  inputImageFile :: string
  configPath :: string
  config :: Config
  customizeOSPartitions :: bool
  useBaseImageRpmRepos :: bool
  rpmsSources :: "string list"
  enableShrinkFilesystems :: bool
  outputSplitPartitionsFormat :: string
  rawImageFile :: string
  outputImageFormat :: string
  qemuOutputImageFormat :: string
  outputImageFile :: string
  outputImageDir :: string
  outputImageBase :: string
  isoBuilder :: "LiveOSIsoBuilder option"

text \<open>
  The methods of \<open>*CommonParameters\<close> change the record they are called on, and the
  change stays when the method fails: their state is the record together with the world.
\<close>

type_synonym 'a cpAction = "(CommonParameters \<times> world, 'a) act"

definition onWorld :: "'a action \<Rightarrow> 'a cpAction" where
  "onWorld m = (\<lambda>(cp, w). case m w of (r, w') \<Rightarrow> (r, (cp, w')))"

definition getCp :: "CommonParameters cpAction" where
  "getCp = (\<lambda>(cp, w). (Inr cp, (cp, w)))"

definition setCp :: "(CommonParameters \<Rightarrow> CommonParameters) \<Rightarrow> unit cpAction" where
  "setCp f = (\<lambda>(cp, w). (Inr (), (f cp, w)))"

definition runWith :: "CommonParameters \<Rightarrow> 'a cpAction \<Rightarrow> 'a action" where
  "runWith cp m = (\<lambda>w. case m (cp, w) of (r, (cp', w')) \<Rightarrow> (r, w'))"

definition initCommonParameters ::
  "env \<Rightarrow> string \<Rightarrow> string \<Rightarrow> string \<Rightarrow> Config \<Rightarrow> bool \<Rightarrow> string list \<Rightarrow> bool \<Rightarrow> string
     \<Rightarrow> string \<Rightarrow> string \<Rightarrow> CommonParameters action" where
  "initCommonParameters E buildDir' inputImageFile' configPath' config' useBaseImageRpmRepos'
       rpmsSources' enableShrinkFilesystems' outputSplitPartitionsFormat' outputImageFormat'
       outputImageFile' =
     andThen (lift (ask E (FilepathAbs buildDir')))
       (\<lambda>_.
     let buildDirAbs' = str E (FilepathAbs buildDir') in
     andThen (extern E (MkdirAll buildDirAbs'))
       (\<lambda>_.
     let cp = \<lparr>buildDir = buildDir', buildDirAbs = buildDirAbs',
                inputImageFile = inputImageFile',
                configPath = configPath', config = config',
                customizeOSPartitions = (Storage config' \<noteq> None \<or> OS config' \<noteq> None),
                useBaseImageRpmRepos = useBaseImageRpmRepos', rpmsSources = rpmsSources',
                enableShrinkFilesystems = enableShrinkFilesystems',
                outputSplitPartitionsFormat = outputSplitPartitionsFormat',
                rawImageFile = str E (FilepathJoin buildDirAbs' BaseImageName),
                outputImageFormat = outputImageFormat', qemuOutputImageFormat = [],
                outputImageFile = outputImageFile',
                outputImageDir = str E (FilepathDir outputImageFile'),
                outputImageBase = TrimSuffix (str E (FilepathBase outputImageFile'))
                                    (filepathExt outputImageFile'),
                isoBuilder = None\<rparr>
     in
     andThen (if outputImageFormat cp \<noteq> [] \<and> outputImageFormat cp \<noteq> ImageFormatIso
              then andThen (lift (toQemuImageFormat (outputImageFormat cp)))
                     (\<lambda>q. ret (cp\<lparr>qemuOutputImageFormat := q\<rparr>))
              else ret cp)
       (\<lambda>cp.
     andThen (extern E (MkdirAll (outputImageDir cp)))
       (\<lambda>_. ret cp))))"

definition convertInputImageToWriteableFormat :: "env \<Rightarrow> unit cpAction" where
  "convertInputImageToWriteableFormat E =
     andThen getCp
       (\<lambda>cp.
     if filepathExt (inputImageFile cp) = ''.iso'' then
       andThen (onWorld (wrap (''failed to create temporary iso expansion folder for iso:''
                               @ [CHR 0x0A])
                  (extern E (TempDir (buildDirAbs cp) ''expanded-input-iso-''))))
         (\<lambda>_.
       let isoExpansionFolder = str E (TempDir (buildDirAbs cp) ''expanded-input-iso-'') in
       andThen (onWorld (wrap (''failed to expand input iso file:'' @ [CHR 0x0A])
                  (extern E (CopyIsoImageContentsToFolder (buildDir cp) (inputImageFile cp)
                               isoExpansionFolder))))
         (\<lambda>_.
       andThen (onWorld (wrap (''failed to load input iso artifacts:'' @ [CHR 0x0A])
                  (extern E (IsoBuilderFromFolder (buildDir cp) isoExpansionFolder))))
         (\<lambda>_.
       andThen (setCp (\<lambda>cp. cp\<lparr>isoBuilder := Some (IsoBuilderOf isoExpansionFolder)\<rparr>))
         (\<lambda>_.
       if customizeOSPartitions cp then
         onWorld (wrap (''failed to create writeable image:'' @ [CHR 0x0A])
           (extern E (CreateWriteableImageFromSquashfs (IsoBuilderOf isoExpansionFolder)
                        (buildDir cp) (rawImageFile cp))))
       else ret ()))))
     else
       onWorld (wrap (''failed to convert image file to raw format:'' @ [CHR 0x0A])
         (extern E (Exec [''qemu-img'', ''convert'', ''-O'', ''raw'', inputImageFile cp,
                          rawImageFile cp]))))"

definition customizeOSContents :: "env \<Rightarrow> unit cpAction" where
  "customizeOSContents E =
     andThen getCp
       (\<lambda>cp.
     if \<not> customizeOSPartitions cp then ret ()
     else
       andThen (onWorld (extern E (CustomizePartitions (buildDirAbs cp) (configPath cp)
                                     (config cp) (rawImageFile cp))))
         (\<lambda>_.
       let partitionsCustomized = flag E (CustomizePartitions (buildDirAbs cp) (configPath cp)
                                            (config cp) (rawImageFile cp));
           newRawImageFile = str E (CustomizePartitions (buildDirAbs cp) (configPath cp)
                                      (config cp) (rawImageFile cp))
       in
       andThen (setCp (\<lambda>cp. cp\<lparr>rawImageFile := newRawImageFile\<rparr>))
         (\<lambda>_.
       andThen getCp
         (\<lambda>cp.
       andThen (onWorld (customizeImageHelper E (buildDirAbs cp) (configPath cp) (config cp)
                           (rawImageFile cp) (rpmsSources cp) (useBaseImageRpmRepos cp)
                           partitionsCustomized))
         (\<lambda>_.
       andThen (if enableShrinkFilesystems cp
                then onWorld (wrap (''failed to shrink filesystems:'' @ [CHR 0x0A])
                       (shrinkFilesystemsHelper E (rawImageFile cp)))
                else ret ())
         (\<lambda>_.
       andThen (case OS (config cp) of
                  None \<Rightarrow> lift (Inl (Panic ''nil pointer dereference: cp.config.OS.Verity''))
                | Some os \<Rightarrow>
                   if Verity os \<noteq> None
                   then onWorld (customizeVerityImageHelper E (buildDirAbs cp) (configPath cp)
                                   (config cp) (rawImageFile cp) (rpmsSources cp)
                                   (useBaseImageRpmRepos cp))
                   else ret ())
         (\<lambda>_.
       andThen (onWorld (wrap (''failed to check filesystems:'' @ [CHR 0x0A])
                  (extern E (CheckFileSystems (rawImageFile cp)))))
         (\<lambda>_.
       if outputSplitPartitionsFormat cp \<noteq> []
       then onWorld (extractPartitionsHelper E (rawImageFile cp) (outputImageDir cp)
                       (outputImageBase cp) (outputSplitPartitionsFormat cp))
       else ret ()))))))))"

text \<open>The switch on the output format has four cases in one arm, one more arm, and no default.\<close>

definition convertWriteableFormatToOutputImage :: "env \<Rightarrow> unit cpAction" where
  "convertWriteableFormatToOutputImage E =
     andThen getCp
       (\<lambda>cp.
     if outputImageFormat cp = ImageFormatVhd \<or> outputImageFormat cp = ImageFormatVhdx
        \<or> outputImageFormat cp = ImageFormatQCow2 \<or> outputImageFormat cp = ImageFormatRaw
     then
       onWorld (wrap (''failed to convert image file to format: '' @ outputImageFormat cp
                      @ '':'' @ [CHR 0x0A])
         (extern E (Exec [''qemu-img'', ''convert'', ''-O'', qemuOutputImageFormat cp,
                          rawImageFile cp, outputImageFile cp])))
     else if outputImageFormat cp = ImageFormatIso then
       (if customizeOSPartitions cp
        then onWorld (extern E (CreateLiveOSIsoImage (buildDir cp) (configPath cp)
                                  (Iso (config cp)) (rawImageFile cp) (outputImageDir cp)
                                  (outputImageBase cp)))
        else onWorld (wrap (''failed to create LiveOS ISO:'' @ [CHR 0x0A])
               (extern E (RecreateLiveOSIsoImage (isoBuilder cp) (configPath cp)
                            (Iso (config cp)) (outputImageDir cp) (outputImageBase cp)))))
     else ret ())"

text \<open>
  \<open>err\<close> is a local variable of \<open>CustomizeImage\<close>, not a named result: what the
  deferred clean-up assigns to it is lost, and the clean-up removes the file that
  \<open>cp.rawImageFile\<close> names when it runs.
\<close>

definition CustomizeImage ::
  "env \<Rightarrow> string \<Rightarrow> string \<Rightarrow> Config \<Rightarrow> string \<Rightarrow> string list \<Rightarrow> string \<Rightarrow> string \<Rightarrow> string
     \<Rightarrow> bool \<Rightarrow> bool \<Rightarrow> unit action" where
  "CustomizeImage E buildDir' baseConfigPath config' imageFile rpmsSources' outputImageFile'
       outputImageFormat' outputSplitPartitionsFormat' useBaseImageRpmRepos'
       enableShrinkFilesystems' =
     andThen (wrap (''invalid image config:'' @ [CHR 0x0A])
                (lift (validateConfig E baseConfigPath config' rpmsSources'
                         useBaseImageRpmRepos')))
       (\<lambda>validated.
     andThen (wrap (''failed to initialize image customizer state:'' @ [CHR 0x0A])
                (initCommonParameters E buildDir' imageFile baseConfigPath validated
                   useBaseImageRpmRepos' rpmsSources' enableShrinkFilesystems'
                   outputSplitPartitionsFormat' outputImageFormat' outputImageFile'))
       (\<lambda>cp.
     runWith cp
      (andThen (wrap (''failed to convert input image to writeable raw image:'' @ [CHR 0x0A])
                  (convertInputImageToWriteableFormat E))
         (\<lambda>_.
       deferred
        (andThen (wrap (''failed to customize raw image:'' @ [CHR 0x0A])
                    (customizeOSContents E))
           (\<lambda>_.
         andThen (wrap (''failed to convert customized raw image to output format:''
                        @ [CHR 0x0A])
                    (convertWriteableFormatToOutputImage E))
           (\<lambda>_. ret ())))
        (andThen getCp (\<lambda>cp. onWorld (extern E (RemoveFileIfExists (rawImageFile cp)))))))))"

text \<open>
  A boot-loader configuration in the shape of a grub file: two kernel lines, one of them
  indented by a tab and with trailing blanks, a root device line, a line that is only
  the word \<open>linux\<close> and a blank, and lines of other kinds.
\<close>

definition grubWorld :: world where
  "grubWorld = \<lparr>files = [''/boot/grub2/grub.cfg'' \<mapsto>
      [''set timeout=0'',
       ''set rootdevice=PARTUUID=1111-2222'',
       ''menuentry one {'',
       ''    linux /boot/vmlinuz root=$rootdevice ro'',
       ''    initrd /boot/initrd.img'',
       ''}'',
       [CHR 0x09] @ ''linux /boot/vmlinuz.old rw  '',
       ''linux '',
       ''# linux is the kernel'']],
     trace = []\<rparr>"

text \<open>The field of a partition that an identifier type names.\<close>

definition idField :: "IdType \<Rightarrow> PartitionInfo \<Rightarrow> string" where
  "idField idType p =
     (if idType = IdTypePartlabel then PartLabel p
      else if idType = IdTypeUuid then Uuid p
      else PartUuid p)"

text \<open>
  A disk with four partitions attached as \<open>/dev/nbd0\<close>, an environment in which every
  call succeeds and \<open>veritysetup\<close> prints the given text, a configuration that asks for
  dm-verity, and the text \<open>veritysetup format\<close> prints.
\<close>

definition verityDisk :: "PartitionInfo list" where
  "verityDisk =
     [\<lparr>Path = ''/dev/nbd0p1'', PartLabel = ''esp'', Uuid = ''AAAA-0001'',
        PartUuid = ''11112222-0001'', FileSystemType = ''vfat''\<rparr>,
      \<lparr>Path = ''/dev/nbd0p2'', PartLabel = ''boot'', Uuid = ''abcd-1234'',
        PartUuid = ''11112222-0002'', FileSystemType = ''ext4''\<rparr>,
      \<lparr>Path = ''/dev/nbd0p3'', PartLabel = ''root'', Uuid = ''abcd-5678'',
        PartUuid = ''11112222-0003'', FileSystemType = ''ext4''\<rparr>,
      \<lparr>Path = ''/dev/nbd0p4'', PartLabel = ''roothash'', Uuid = ''abcd-9abc'',
        PartUuid = ''11112222-0004'', FileSystemType = ''''\<rparr>]"

definition verityEnv :: "string \<Rightarrow> env" where
  "verityEnv out = quietEnv
     \<lparr>str := (\<lambda>c.
         if c = FilepathJoin ''/sys/class/block/nbd0'' ''pid'' then ''/sys/class/block/nbd0/pid''
         else if c = FilepathBase ''/sys/class/block/nbd0'' then ''nbd0''
         else if c = Exec [''veritysetup'', ''format'', ''/dev/nbd0p3'', ''/dev/nbd0p4''] then out
         else if c = FilepathJoin ''/build'' ''tmppartition'' then ''/build/tmppartition''
         else if c = FilepathJoin ''/build/tmppartition'' ''grub2/grub.cfg''
              then ''/build/tmppartition/grub2/grub.cfg''
         else []),
      strs := (\<lambda>c. if c = Glob ''/sys/class/block/nbd*'' then [''/sys/class/block/nbd0''] else []),
      part := (\<lambda>c. verityDisk ! 1),
      parts := (\<lambda>c. verityDisk)\<rparr>"

definition verityConfig :: Config where
  "verityConfig = \<lparr>Storage = None, Iso = None,
     OS = Some \<lparr>Packages = \<lparr>UpdateExistingPackages = False, InstallLists = [], Install = [],
                     RemoveLists = [], Remove = [], UpdateLists = [], Update = []\<rparr>,
                AdditionalFiles = [], PostInstallScripts = [], FinalizeImageScripts = [],
                Verity = Some \<lparr>DataPartition = \<lparr>PartitionIdType = IdTypePartuuid,
                                                 PartitionId = ''11112222-0003''\<rparr>,
                                HashPartition = \<lparr>PartitionIdType = IdTypePartlabel,
                                                 PartitionId = ''roothash''\<rparr>\<rparr>\<rparr>\<rparr>"

definition veritysetupOutput :: string where
  "veritysetupOutput =
     ''VERITY header information for /dev/nbd0p4'' @ [CHR 0x0A]
     @ ''UUID:'' @ [CHR 0x09, CHR 0x09] @ ''6ad8f2d5'' @ [CHR 0x0A]
     @ ''Hash algorithm:'' @ [CHR 0x09] @ ''sha256'' @ [CHR 0x0A]
     @ ''Root hash:'' @ [CHR 0x09, CHR 0x09] @ ''9f8e7d6c5b4a'' @ [CHR 0x0A]"

text \<open>
  A world in which the boot partition, once mounted in the build directory, holds a
  \<open>grub.cfg\<close> of six lines.
\<close>

definition verityWorld :: world where
  "verityWorld = \<lparr>files = [''/build/tmppartition/grub2/grub.cfg'' \<mapsto>
      [''set timeout=0'',
       ''set rootdevice=PARTUUID=11112222-0003'',
       ''menuentry one {'',
       ''    linux /boot/vmlinuz root=$rootdevice ro'',
       ''    initrd /boot/initrd.img'',
       ''}'']],
     trace = []\<rparr>"

text \<open>
  An environment in which \<open>collectPackagesList\<close> answers with the packages named in the
  configuration itself, and configurations with the given packages to install and the given
  \<open>Storage\<close> section.
\<close>

definition pkgEnv :: env where
  "pkgEnv = quietEnv
     \<lparr>strs := (\<lambda>c. case c of CollectPackagesList b listFiles pkgs \<Rightarrow> pkgs | _ \<Rightarrow> [])\<rparr>"

definition pkgConfig :: "string list \<Rightarrow> Storage option \<Rightarrow> Config" where
  "pkgConfig install storage = \<lparr>Storage = storage, Iso = None,
     OS = Some \<lparr>Packages = \<lparr>UpdateExistingPackages = False, InstallLists = [],
                     Install = install, RemoveLists = [], Remove = [], UpdateLists = [],
                     Update = []\<rparr>,
                AdditionalFiles = [], PostInstallScripts = [], FinalizeImageScripts = [],
                Verity = None\<rparr>\<rparr>"

section \<open>Calls that a run adds to the log\<close>

text \<open>
  A call is no output when it is neither a build of an ISO image nor a \<open>qemu-img\<close>
  command other than the conversion of the input image \<open>img\<close> to raw format.
\<close>

definition notOutput :: "string \<Rightarrow> call \<Rightarrow> bool" where
  "notOutput img c =
     (case c of
        Exec args \<Rightarrow>
          (case args of
             [] \<Rightarrow> True
           | a # _ \<Rightarrow> a = ''qemu-img''
               \<longrightarrow> length args = 6 \<and> take 5 args = [''qemu-img'', ''convert'', ''-O'', ''raw'', img])
      | CreateLiveOSIsoImage _ _ _ _ _ _ \<Rightarrow> False
      | RecreateLiveOSIsoImage _ _ _ _ _ \<Rightarrow> False
      | _ \<Rightarrow> True)"

definition addsOnly :: "(call \<Rightarrow> bool) \<Rightarrow> 'a action \<Rightarrow> bool" where
  "addsOnly P m \<longleftrightarrow> (\<forall>w. \<exists>t. trace (snd (m w)) = trace w @ t \<and> list_all P t)"

definition keeps ::
  "(CommonParameters \<Rightarrow> bool) \<Rightarrow> (call \<Rightarrow> bool) \<Rightarrow> 'a cpAction \<Rightarrow> CommonParameters \<Rightarrow> bool" where
  "keeps I P m cp \<longleftrightarrow>
     (I cp \<longrightarrow> (\<forall>w. I (fst (snd (m (cp, w))))
                  \<and> (\<exists>t. trace (snd (snd (m (cp, w)))) = trace w @ t \<and> list_all P t)))"


text \<open>
  The calls that every stage of the pipeline makes whatever the configuration is, and the
  calls other than the repackaging of the artifacts of an expanded ISO.
\<close>

definition mundane :: "(call \<Rightarrow> bool) \<Rightarrow> bool" where
  "mundane P \<longleftrightarrow>
     (\<forall>name args. P (Lib name args))
     \<and> (\<forall>a b cf d. P (CustomizePartitions a b cf d))
     \<and> (\<forall>a b cf d rs u pc. P (DoCustomizations a b cf d rs u pc))
     \<and> (\<forall>ib a b. P (CreateWriteableImageFromSquashfs ib a b))
     \<and> (\<forall>p ps b. P (FindBootPartitionFromEsp p ps b))
     \<and> (\<forall>args. P (Exec (''qemu-nbd'' # args)))
     \<and> (\<forall>args. P (Exec (''veritysetup'' # args)))"

definition notRecreate :: "call \<Rightarrow> bool" where
  "notRecreate c = (case c of RecreateLiveOSIsoImage _ _ _ _ _ \<Rightarrow> False | _ \<Rightarrow> True)"

definition emptyFormat :: "string \<Rightarrow> CommonParameters \<Rightarrow> bool" where
  "emptyFormat img cp \<longleftrightarrow> outputImageFormat cp = [] \<and> inputImageFile cp = img"


text \<open>
  An environment with file paths that can be read, in which no call fails, and the world
  before a run.
\<close>

definition buildEnv :: env where
  "buildEnv = pkgEnv
     \<lparr>str := (\<lambda>c. case c of
          Lib name args \<Rightarrow>
            (if name = ''filepath.Abs'' then args ! 0
             else if name = ''filepath.Join'' then args ! 0 @ ''/'' @ args ! 1
             else if name = ''filepath.Dir'' then ''/out''
             else if name = ''filepath.Base'' then ''image.vhdx''
             else if name = ''ioutil.TempDir'' then args ! 0 @ ''/'' @ args ! 1 @ ''1''
             else if name = ''Loopback.DevicePath'' then ''/dev/loop0''
             else [])
        | CustomizePartitions b p cf raw \<Rightarrow> raw
        | _ \<Rightarrow> [])\<rparr>"

definition emptyWorld :: world where
  "emptyWorld = \<lparr>files = Map.empty, trace = []\<rparr>"

text \<open>
  A configuration with a \<open>Storage\<close> section and no \<open>OS\<close> section, the parameters of
  a run on it, and a configuration with neither section.
\<close>

definition storageOnlyConfig :: Config where
  "storageOnlyConfig = \<lparr>Storage = Some StorageSection, Iso = None, OS = None\<rparr>"

definition storageOnlyCp :: CommonParameters where
  "storageOnlyCp = \<lparr>buildDir = ''/build'', buildDirAbs = ''/build'',
     inputImageFile = ''/in/base.vhdx'', configPath = ''/cfg'', config = storageOnlyConfig,
     customizeOSPartitions = True, useBaseImageRpmRepos = False, rpmsSources = [''/rpms''],
     enableShrinkFilesystems = False, outputSplitPartitionsFormat = [],
     rawImageFile = ''/build/image.raw'', outputImageFormat = ''vhdx'',
     qemuOutputImageFormat = ''vhdx'', outputImageFile = ''/out/image.vhdx'',
     outputImageDir = ''/out'', outputImageBase = ''image'', isoBuilder = None\<rparr>"

definition noSectionsConfig :: Config where
  "noSectionsConfig = \<lparr>Storage = None, Iso = None, OS = None\<rparr>"

section \<open>The boot-time assembler: media check (part\_000, lines 42--61)\<close>

text \<open>
  What the script asks of the machine it boots on: whether the live device is a block
  device, what \<open>blkid\<close> reports as its type, whether \<open>getarg rd.live.check -d check\<close>
  finds the argument, whether \<open>plymouth\<close> is there, the value of \<open>DRACUT_SYSTEMD\<close>, the
  unit name of the device, the exit status of each command, and the values the shell
  variables \<open>fs\<close> and \<open>check\<close> have on entry (empty unless inherited).
\<close>

datatype command =
    PlymouthHideSplash
  | PlymouthShowSplash
  | SystemctlStart string
  | Checkisomd5Verbose string

datatype outcome = Die string | Continue

record machine =
  isBlockDevice :: bool
  blkidType :: string
  getargCheck :: bool
  havePlymouth :: bool
  DRACUT_SYSTEMD :: string
  dev_unit_name :: string
  exitStatus :: "command \<Rightarrow> nat"
  fsOnEntry :: string
  checkOnEntry :: string

text \<open>
  The statements in their order: \<open>fs\<close> is assigned for a block device only, \<open>check\<close>
  becomes \<open>yes\<close> for the two optical file systems, and is emptied again when \<open>getarg\<close>
  does not find the argument. \<open>$?\<close> after the inner \<open>if\<close> is the exit status of the
  command run in it, and is compared with 1.
\<close>

definition mediaCheck :: "machine \<Rightarrow> string \<Rightarrow> command list \<times> outcome" where
  "mediaCheck M livedev =
     (let fs = (if isBlockDevice M then blkidType M else fsOnEntry M);
          check1 = (if fs = ''iso9660'' \<or> fs = ''udf'' then ''yes'' else checkOnEntry M);
          check2 = (if getargCheck M then check1 else [])
      in
      if check2 \<noteq> [] then
        (let hide = (if havePlymouth M then [PlymouthHideSplash] else []);
             tool = (if DRACUT_SYSTEMD M \<noteq> []
                     then SystemctlStart (''checkisomd5@'' @ dev_unit_name M @ ''.service'')
                     else Checkisomd5Verbose livedev)
         in
         if exitStatus M tool = 1 then (hide @ [tool], Die ''CD check failed!'')
         else (hide @ [tool] @ (if havePlymouth M then [PlymouthShowSplash] else []), Continue))
      else ([], Continue))"

text \<open>A machine booting from an optical medium, with the given flag and verification result.\<close>

definition cdMachine :: "bool \<Rightarrow> nat \<Rightarrow> machine" where
  "cdMachine flagGiven status = \<lparr>isBlockDevice = True, blkidType = ''iso9660'',
     getargCheck = flagGiven, havePlymouth = True, DRACUT_SYSTEMD = ''1'',
     dev_unit_name = ''dev-sr0'', exitStatus = (\<lambda>_. status), fsOnEntry = [],
     checkOnEntry = []\<rparr>"

section \<open>The boot-time assembler: size of the temporary overlay (part\_000, lines 36--37, 273)\<close>

text \<open>
  \<open>overlay\_size\<close> is the number given as \<open>rd.live.overlay.size\<close>, or 32768 when the
  argument is missing. The arithmetic of the shell is on signed 64-bit integers and wraps
  around.
\<close>

definition overlay_size :: "int option \<Rightarrow> int" where
  "overlay_size arg = (case arg of None \<Rightarrow> 32768 | Some n \<Rightarrow> n)"

definition shTimes :: "int \<Rightarrow> int \<Rightarrow> int" where
  "shTimes a b = sint (word_of_int a * word_of_int b :: 64 word)"

text \<open>
  \<open>dd if=/dev/null of=F bs=B count=1 seek=S\<close> copies nothing and leaves \<open>F\<close> with the
  apparent size of \<open>S\<close> blocks of \<open>B\<close> bytes; it refuses a negative number and an offset
  beyond the largest file offset, \<open>2^63 - 1\<close>. Its messages go to \<open>/dev/null\<close> and the
  script goes on either way.
\<close>

definition ddSeek :: "int \<Rightarrow> int \<Rightarrow> int option" where
  "ddSeek bs seek = (if 0 \<le> seek \<and> bs * seek \<le> 2 ^ 63 - 1 then Some (bs * seek) else None)"

definition overlayFileSize :: "int option \<Rightarrow> int option" where
  "overlayFileSize arg = ddSeek 1024 (shTimes (overlay_size arg) 1024)"

chapter \<open>Properties\<close>

section \<open>Format-name mapping\<close>

text \<open>
  Claim C5. \<open>toQemuImageFormat\<close> maps \<open>vhd\<close> to \<open>vpc\<close>, maps \<open>vhdx\<close>, \<open>raw\<close> and
  \<open>qcow2\<close> to themselves, and answers every other string with the error whose message
  lists the four supported names followed by the rejected string.
\<close>

theorem toQemuImageFormat_mapping:
  "toQemuImageFormat f =
     (if f = ''vhd'' then Inr ''vpc''
      else if f \<in> {''vhdx'', ''raw'', ''qcow2''} then Inr f
      else Inl (Error (''unsupported image format (supported: vhd, vhdx, raw, qcow2): '' @ f)))"
  by (simp add: toQemuImageFormat_def format_names)

theorem toQemuImageFormat_mapping_witness:
  "toQemuImageFormat ''vhd'' = Inr ''vpc'' \<and> toQemuImageFormat ''vhdx'' = Inr ''vhdx''
   \<and> toQemuImageFormat ''raw'' = Inr ''raw'' \<and> toQemuImageFormat ''qcow2'' = Inr ''qcow2''
   \<and> toQemuImageFormat ''iso'' =
       Inl (Error ''unsupported image format (supported: vhd, vhdx, raw, qcow2): iso'')"
  using toQemuImageFormat_mapping [of "''vhd''"] toQemuImageFormat_mapping [of "''vhdx''"]
    toQemuImageFormat_mapping [of "''raw''"] toQemuImageFormat_mapping [of "''qcow2''"]
    toQemuImageFormat_mapping [of "''iso''"]
  by simp

section \<open>Resolving a partition by identifier\<close>

lemma IdType_distinct:
  "IdTypePartlabel \<noteq> IdTypeUuid" "IdTypePartlabel \<noteq> IdTypePartuuid"
  "IdTypeUuid \<noteq> IdTypePartuuid" "IdTypeUuid \<noteq> IdTypePartlabel"
  "IdTypePartuuid \<noteq> IdTypePartlabel" "IdTypePartuuid \<noteq> IdTypeUuid"
  by (simp_all add: IdType_names)

lemma idToPartitionBlockDevicePath_supported:
  assumes "idType \<in> {IdTypePartlabel, IdTypeUuid, IdTypePartuuid}"
  shows "idToPartitionBlockDevicePath idType ident nbdDevice ps =
     (case find (\<lambda>p. idField idType p = ident) ps of
        Some p \<Rightarrow> Inr (Path p)
      | None \<Rightarrow> Inl (Error (''no partition found for '' @ idType @ '': '' @ ident)))"
proof -
  consider "idType = IdTypePartlabel" | "idType = IdTypeUuid" | "idType = IdTypePartuuid"
    using assms by auto
  then show ?thesis
  proof cases
    case 1 then show ?thesis by (induction ps) (simp_all add: idField_def)
  next
    case 2 then show ?thesis by (induction ps) (simp_all add: idField_def IdType_distinct)
  next
    case 3 then show ?thesis by (induction ps) (simp_all add: idField_def IdType_distinct)
  qed
qed

lemma idToPartitionBlockDevicePath_unsupported:
  assumes "idType \<notin> {IdTypePartlabel, IdTypeUuid, IdTypePartuuid}" and "ps \<noteq> []"
  shows "idToPartitionBlockDevicePath idType ident nbdDevice ps =
     Inl (Error (''invalid idType provided ('' @ idType @ '')''))"
  using assms by (cases ps) simp_all

text \<open>
  Claim C6. Resolving by identifier returns the path of the first partition whose field
  matches, a not-found error naming type and value when none matches, and a distinct
  invalid-idType error for an unsupported identifier type. The first two parts hold
  (\<open>idToPartitionBlockDevicePath_supported\<close>), and so does the third for a list with at
  least one partition (\<open>idToPartitionBlockDevicePath_unsupported\<close>). For the empty list
  the switch on the identifier type is never reached: the unsupported type \<open>bogus\<close> is
  answered with the not-found error, while \<open>systemdFormatPartitionId\<close> next to it
  rejects the same type as invalid.
\<close>

theorem idToPartitionBlockDevicePath_empty_list_unsupported:
  "''bogus'' \<notin> {IdTypePartlabel, IdTypeUuid, IdTypePartuuid}
   \<and> idToPartitionBlockDevicePath ''bogus'' ''1234'' ''/dev/nbd0'' [] =
       Inl (Error ''no partition found for bogus: 1234'')
   \<and> systemdFormatPartitionId ''bogus'' ''1234'' =
       Inl (Error ''invalid idType provided (bogus)'')"
  by (simp add: IdType_names systemdFormatPartitionId_def)

section \<open>Patching the boot-loader configuration\<close>

lemma prefixes_disjoint:
  "HasPrefix t ''linux '' \<Longrightarrow> \<not> HasPrefix t ''set rootdevice=PARTUUID=''"
  by (cases t) (auto simp: HasPrefix_def)

lemma updateGrubLines_map:
  "updateGrubLines newArgs ls acc =
     acc @ map (\<lambda>l. if HasPrefix (TrimSpace l) ''linux '' then l @ '' '' @ newArgs
                    else if HasPrefix (TrimSpace l) ''set rootdevice=PARTUUID=''
                         then ''set rootdevice=/dev/mapper/root'' else l) ls"
  by (induction ls arbitrary: acc) (auto simp: Let_def dest: prefixes_disjoint)

text \<open>
  Claim C1, as the code has it. When both identifiers have a rendering for the boot
  arguments and the file can be read and written, \<open>updateGrubConfig\<close> replaces the file
  by its lines in their order, where every line whose text with the white space trimmed
  at both ends (\<open>strings.TrimSpace\<close>) starts with \<open>linux\<close> and a blank has the verity
  arguments appended after a blank, every line whose trimmed text starts with
  \<open>set rootdevice=PARTUUID=\<close> is replaced by \<open>set rootdevice=/dev/mapper/root\<close>, and
  every other line is unchanged. No line meets both tests.
\<close>

theorem updateGrubConfig_patches:
  assumes "systemdFormatPartitionId dt di = Inr d"
    and "systemdFormatPartitionId ht hi = Inr h"
    and "failsWith E (ReadLines path) = None"
    and "failsWith E (WriteLines path) = None"
    and "files w path = Some ls"
  shows "updateGrubConfig E dt di ht hi rootHash path w =
     (Inr (), w\<lparr>files := (files w)(path \<mapsto>
        map (\<lambda>l. if HasPrefix (TrimSpace l) ''linux ''
                  then l @ '' rd.systemd.verity=1 roothash='' @ rootHash
                         @ '' systemd.verity_root_data='' @ d
                         @ '' systemd.verity_root_hash='' @ h
                         @ '' systemd.verity_root_options=panic-on-corruption''
                  else if HasPrefix (TrimSpace l) ''set rootdevice=PARTUUID=''
                       then ''set rootdevice=/dev/mapper/root''
                       else l) ls)\<rparr>)"
  using assms
  by (simp add: updateGrubConfig_def andThen_def lift_def wrap_def wrapResult_def
      readLines_def writeLines_def ret_def updateGrubLines_map cong: if_cong)

theorem updateGrubConfig_patches_witness:
  "fst (updateGrubConfig quietEnv ''partuuid'' ''1111-2222'' ''partlabel'' ''hash'' ''9f8e7d''
          ''/boot/grub2/grub.cfg'' grubWorld) = Inr ()
   \<and> files (snd (updateGrubConfig quietEnv ''partuuid'' ''1111-2222'' ''partlabel'' ''hash''
          ''9f8e7d'' ''/boot/grub2/grub.cfg'' grubWorld)) ''/boot/grub2/grub.cfg'' =
      Some
       [''set timeout=0'',
        ''set rootdevice=/dev/mapper/root'',
        ''menuentry one {'',
        ''    linux /boot/vmlinuz root=$rootdevice ro rd.systemd.verity=1 roothash=9f8e7d systemd.verity_root_data=PARTUUID=1111-2222 systemd.verity_root_hash=PARTLABEL=hash systemd.verity_root_options=panic-on-corruption'',
        ''    initrd /boot/initrd.img'',
        ''}'',
        [CHR 0x09] @ ''linux /boot/vmlinuz.old rw   rd.systemd.verity=1 roothash=9f8e7d systemd.verity_root_data=PARTUUID=1111-2222 systemd.verity_root_hash=PARTLABEL=hash systemd.verity_root_options=panic-on-corruption'',
        ''linux '',
        ''# linux is the kernel'']"
proof -
  have d: "systemdFormatPartitionId ''partuuid'' ''1111-2222'' = Inr ''PARTUUID=1111-2222''"
    by code_simp
  have h: "systemdFormatPartitionId ''partlabel'' ''hash'' = Inr ''PARTLABEL=hash''"
    by code_simp
  have r: "failsWith quietEnv (ReadLines ''/boot/grub2/grub.cfg'') = None"
    and w: "failsWith quietEnv (WriteLines ''/boot/grub2/grub.cfg'') = None"
    by (simp_all add: quietEnv_def)
  have f: "files grubWorld ''/boot/grub2/grub.cfg'' =
      Some (the (files grubWorld ''/boot/grub2/grub.cfg''))"
    by (simp add: grubWorld_def)
  have t: "TrimSpace ''set timeout=0'' = ''set timeout=0''"
    "TrimSpace ''set rootdevice=PARTUUID=1111-2222'' = ''set rootdevice=PARTUUID=1111-2222''"
    "TrimSpace ''menuentry one {'' = ''menuentry one {''"
    "TrimSpace ''    linux /boot/vmlinuz root=$rootdevice ro'' =
       ''linux /boot/vmlinuz root=$rootdevice ro''"
    "TrimSpace ''    initrd /boot/initrd.img'' = ''initrd /boot/initrd.img''"
    "TrimSpace ''}'' = ''}''"
    "TrimSpace (CHR 0x09 # ''linux /boot/vmlinuz.old rw  '') = ''linux /boot/vmlinuz.old rw''"
    "TrimSpace ''linux '' = ''linux''"
    "TrimSpace ''# linux is the kernel'' = ''# linux is the kernel''"
    by code_simp+
  show ?thesis
    using updateGrubConfig_patches [OF d h r w f, of "''9f8e7d''"]
    by (simp add: grubWorld_def t HasPrefix_def)
qed

text \<open>
  Claim C1, as it is worded, trims leading white space only. The line that is the word
  \<open>linux\<close> followed by one blank starts with \<open>linux\<close> and a blank once its leading
  white space is trimmed, and the code leaves it as it is: \<open>strings.TrimSpace\<close> takes
  the trailing blank away before the test.
\<close>

theorem updateGrubConfig_leading_trim_counterexample:
  "HasPrefix (TrimLeftSpace ''linux '') ''linux ''
   \<and> files (snd (updateGrubConfig quietEnv ''partuuid'' ''1111-2222'' ''partlabel'' ''hash''
          ''9f8e7d'' ''grub.cfg'' \<lparr>files = [''grub.cfg'' \<mapsto> [''linux '']], trace = []\<rparr>))
        ''grub.cfg'' = Some [''linux '']"
proof -
  have l: "TrimLeftSpace ''linux '' = ''linux ''" and t: "TrimSpace ''linux '' = ''linux''"
    by code_simp+
  have d: "systemdFormatPartitionId ''partuuid'' ''1111-2222'' = Inr ''PARTUUID=1111-2222''"
    and h: "systemdFormatPartitionId ''partlabel'' ''hash'' = Inr ''PARTLABEL=hash''"
    by code_simp+
  show ?thesis
    by (simp add: l t d h HasPrefix_def updateGrubConfig_def andThen_def lift_def wrap_def
        wrapResult_def readLines_def writeLines_def ret_def quietEnv_def)
qed


section \<open>Extracting the root hash\<close>

lemma reHex_not_reSpace: "reHex c \<Longrightarrow> \<not> reSpace c"
  by (auto simp: reHex_def reSpace_def)

lemma matchRootHashHere_sound:
  assumes "matchRootHashHere s = Some (whole, h)"
  shows "\<exists>ws post. rootHashMatch s [] ws h post \<and> whole = ''Root hash:'' @ ws @ h
           \<and> (post = [] \<or> \<not> reHex (hd post))"
proof -
  define r where "r = drop (length ''Root hash:'') s"
  define ws where "ws = takeWhile reSpace r"
  define post where "post = dropWhile reHex (dropWhile reSpace r)"
  from assms have p: "prefix ''Root hash:'' s"
    by (auto simp: matchRootHashHere_def split: if_splits)
  then have s: "s = ''Root hash:'' @ r"
    unfolding r_def by (metis append_eq_conv_conj prefixE)
  from assms p have h: "h = takeWhile reHex (dropWhile reSpace r)" and ne: "ws \<noteq> []" "h \<noteq> []"
    and w: "whole = ''Root hash:'' @ ws @ h"
    by (auto simp: matchRootHashHere_def Let_def r_def ws_def split: if_splits)
  have "r = ws @ h @ post"
    by (simp add: ws_def h post_def)
  moreover have "list_all reSpace ws" "list_all reHex h"
    by (auto simp: ws_def h list_all_iff dest: set_takeWhileD)
  moreover have "post = [] \<or> \<not> reHex (hd post)"
    unfolding post_def using hd_dropWhile by blast
  ultimately show ?thesis
    using s ne w by (auto simp: rootHashMatch_def)
qed

lemma matchRootHashHere_complete:
  assumes "rootHashMatch s [] ws h post"
  shows "matchRootHashHere s \<noteq> None"
proof -
  from assms have s: "s = ''Root hash:'' @ ws @ h @ post" and ws: "ws \<noteq> []" "list_all reSpace ws"
    and h: "h \<noteq> []" "list_all reHex h"
    by (auto simp: rootHashMatch_def)
  from h obtain c h' where c: "h = c # h'" "reHex c"
    by (cases h) auto
  have t: "takeWhile reSpace (ws @ h @ post) = ws"
    using ws c by (simp add: takeWhile_append2 list_all_iff reHex_not_reSpace)
  have d: "dropWhile reSpace (ws @ h @ post) = h @ post"
    using ws c by (simp add: dropWhile_append2 list_all_iff reHex_not_reSpace)
  have "takeWhile reHex (h @ post) \<noteq> []"
    using c by simp
  then show ?thesis
    using ws by (simp add: matchRootHashHere_def s t d Let_def)
qed


lemma FindStringSubmatch_nil_iff:
  "FindStringSubmatch s = [] \<longleftrightarrow> (\<forall>rest. suffix rest s \<longrightarrow> matchRootHashHere rest = None)"
proof (induction s)
  case Nil
  then show ?case by (simp add: matchRootHashHere_def)
next
  case (Cons c s)
  show ?case
  proof (cases "matchRootHashHere (c # s)")
    case None
    then have "FindStringSubmatch (c # s) = [] \<longleftrightarrow> FindStringSubmatch s = []"
      by simp
    also have "\<dots> \<longleftrightarrow> (\<forall>rest. suffix rest s \<longrightarrow> matchRootHashHere rest = None)"
      by (rule Cons.IH)
    also have "\<dots> \<longleftrightarrow> (\<forall>rest. suffix rest (c # s) \<longrightarrow> matchRootHashHere rest = None)"
      using None by (auto simp only: suffix_Cons)
    finally show ?thesis .
  next
    case (Some a)
    then have ne: "FindStringSubmatch (c # s) \<noteq> []"
      by (cases a) simp
    have "\<not> (\<forall>rest. suffix rest (c # s) \<longrightarrow> matchRootHashHere rest = None)"
    proof
      assume "\<forall>rest. suffix rest (c # s) \<longrightarrow> matchRootHashHere rest = None"
      then have "suffix (c # s) (c # s) \<longrightarrow> matchRootHashHere (c # s) = None"
        by (rule spec)
      with Some show False by simp
    qed
    with ne show ?thesis by simp
  qed
qed

lemma FindStringSubmatch_none:
  "FindStringSubmatch s = [] \<longleftrightarrow> (\<forall>pre rest. s = pre @ rest \<longrightarrow> matchRootHashHere rest = None)"
  unfolding FindStringSubmatch_nil_iff suffix_def by blast

lemma FindStringSubmatch_some:
  assumes "FindStringSubmatch s \<noteq> []"
  shows "\<exists>pre rest whole h. s = pre @ rest \<and> matchRootHashHere rest = Some (whole, h)
           \<and> FindStringSubmatch s = [whole, h]
           \<and> (\<forall>pre' rest'. s = pre' @ rest' \<and> length pre' < length pre
                  \<longrightarrow> matchRootHashHere rest' = None)"
  using assms
proof (induction s)
  case Nil
  then show ?case by simp
next
  case (Cons c s)
  show ?case
  proof (cases "matchRootHashHere (c # s)")
    case None
    with Cons.prems have "FindStringSubmatch s \<noteq> []" by simp
    from Cons.IH [OF this] obtain pre rest whole h where
      *: "s = pre @ rest" "matchRootHashHere rest = Some (whole, h)"
         "FindStringSubmatch s = [whole, h]"
         "\<forall>pre' rest'. s = pre' @ rest' \<and> length pre' < length pre
             \<longrightarrow> matchRootHashHere rest' = None"
      by blast
    have "\<forall>pre' rest'. c # s = pre' @ rest' \<and> length pre' < length (c # pre)
             \<longrightarrow> matchRootHashHere rest' = None"
      using None * by (auto simp: Cons_eq_append_conv)
    with * None show ?thesis
      by (intro exI [of _ "c # pre"] exI [of _ rest] exI [of _ whole] exI [of _ h]) simp
  next
    case (Some a)
    obtain whole h where a: "a = (whole, h)"
      by (cases a)
    with Some show ?thesis
      by (intro exI [of _ "[]"] exI [of _ "c # s"] exI [of _ whole] exI [of _ h]) simp
  qed
qed

lemma rootHashMatch_shift:
  "rootHashMatch (pre @ rest) pre ws h post \<longleftrightarrow> rootHashMatch rest [] ws h post"
  by (simp add: rootHashMatch_def)

lemma rootHashMatch_split:
  "rootHashMatch s pre ws h post \<Longrightarrow> \<exists>rest. s = pre @ rest \<and> rootHashMatch rest [] ws h post"
  by (auto simp: rootHashMatch_def)

lemma FindStringSubmatch_shape:
  "FindStringSubmatch s = [] \<or> (\<exists>whole h. FindStringSubmatch s = [whole, h])"
  by (induction s) (auto split: option.splits)

lemma parseRootHash_error_iff:
  "parseRootHash out = Inl (Error ''failed to parse root hash from veritysetup output'')
     \<longleftrightarrow> \<not> (\<exists>pre ws h post. rootHashMatch out pre ws h post)"
proof -
  have "parseRootHash out = Inl (Error ''failed to parse root hash from veritysetup output'')
          \<longleftrightarrow> FindStringSubmatch out = []"
    using FindStringSubmatch_shape [of out] by (auto simp: parseRootHash_def Let_def)
  also have "\<dots> \<longleftrightarrow> (\<forall>pre rest. out = pre @ rest \<longrightarrow> matchRootHashHere rest = None)"
    by (rule FindStringSubmatch_none)
  also have "\<dots> \<longleftrightarrow> \<not> (\<exists>pre ws h post. rootHashMatch out pre ws h post)"
  proof
    assume none: "\<forall>pre rest. out = pre @ rest \<longrightarrow> matchRootHashHere rest = None"
    show "\<not> (\<exists>pre ws h post. rootHashMatch out pre ws h post)"
    proof
      assume "\<exists>pre ws h post. rootHashMatch out pre ws h post"
      then obtain pre ws h post where m: "rootHashMatch out pre ws h post"
        by (elim exE)
      from rootHashMatch_split [OF m] obtain rest where
        r: "out = pre @ rest" "rootHashMatch rest [] ws h post"
        by (elim exE conjE)
      from none r(1) have "matchRootHashHere rest = None"
        by simp
      with matchRootHashHere_complete [OF r(2)] show False
        by simp
    qed
  next
    assume nomatch: "\<not> (\<exists>pre ws h post. rootHashMatch out pre ws h post)"
    show "\<forall>pre rest. out = pre @ rest \<longrightarrow> matchRootHashHere rest = None"
    proof (intro allI impI)
      fix pre rest assume out: "out = pre @ rest"
      show "matchRootHashHere rest = None"
      proof (rule ccontr)
        assume "matchRootHashHere rest \<noteq> None"
        then obtain whole h where "matchRootHashHere rest = Some (whole, h)"
          by (cases "matchRootHashHere rest") auto
        from matchRootHashHere_sound [OF this] obtain ws post where
          "rootHashMatch rest [] ws h post"
          by (elim exE conjE)
        then have "rootHashMatch out pre ws h post"
          by (simp add: out rootHashMatch_shift)
        then have "\<exists>pre ws h post. rootHashMatch out pre ws h post"
          by (intro exI)
        with nomatch show False by simp
      qed
    qed
  qed
  finally show ?thesis .
qed

lemma parseRootHash_group:
  assumes "parseRootHash out = Inr h"
  shows "\<exists>pre ws post. rootHashMatch out pre ws h post \<and> (post = [] \<or> \<not> reHex (hd post))
           \<and> (\<forall>pre' ws' h' post'. rootHashMatch out pre' ws' h' post'
                  \<longrightarrow> length pre \<le> length pre')"
proof -
  from assms have ne: "FindStringSubmatch out \<noteq> []" and h: "h = FindStringSubmatch out ! 1"
    by (auto simp: parseRootHash_def Let_def split: if_splits)
  from FindStringSubmatch_some [OF ne] obtain pre rest whole h0 where
    *: "out = pre @ rest" "matchRootHashHere rest = Some (whole, h0)"
       "FindStringSubmatch out = [whole, h0]"
       "\<forall>pre' rest'. out = pre' @ rest' \<and> length pre' < length pre
           \<longrightarrow> matchRootHashHere rest' = None"
    by (elim exE conjE)
  from h * have h0: "h0 = h" by simp
  from matchRootHashHere_sound [OF *(2)] h0 obtain ws post where
    m: "rootHashMatch rest [] ws h post" "post = [] \<or> \<not> reHex (hd post)"
    by (elim exE conjE) simp
  have left: "length pre \<le> length pre'" if "rootHashMatch out pre' ws' h' post'"
    for pre' ws' h' post'
  proof (rule ccontr)
    assume "\<not> length pre \<le> length pre'"
    then have less: "length pre' < length pre" by simp
    from rootHashMatch_split [OF that] obtain rest' where
      r: "out = pre' @ rest'" "rootHashMatch rest' [] ws' h' post'"
      by (elim exE conjE)
    from *(4) r(1) less have "matchRootHashHere rest' = None" by simp
    with matchRootHashHere_complete [OF r(2)] show False by simp
  qed
  have "rootHashMatch out pre ws h post"
    using m(1) *(1) by (simp add: rootHashMatch_shift)
  moreover have "\<forall>pre' ws' h' post'. rootHashMatch out pre' ws' h' post'
                  \<longrightarrow> length pre \<le> length pre'"
    using left by (intro allI impI)
  ultimately show ?thesis
    using m(2) by (intro exI [of _ pre] exI [of _ ws] exI [of _ post] conjI)
qed


text \<open>
  Claim C2. When \<open>customizeVerityImageHelper\<close> has attached the image, resolved the data
  and the hash partition and run \<open>veritysetup format\<close>, the text \<open>out\<close> that the tool
  printed decides what follows. Either the extraction fails: then the error is the parse
  error, \<open>out\<close> holds no match of the regular expression, and the function returns that
  error having run nothing after \<open>veritysetup\<close> but the deferred detach, with every
  file as it was. Or the extraction yields \<open>h\<close>: then \<open>h\<close> is the first group of the
  leftmost match in \<open>out\<close>, with all the hexadecimal digits that follow the white space,
  and the function goes on with \<open>h\<close>: once the boot partition is found and mounted, what
  remains of the run is \<open>updateGrubConfig\<close> with the two configured identifiers, the root
  hash \<open>h\<close> and the \<open>grub.cfg\<close> of the mounted partition, followed by the unmount and
  the two deferred calls. When that call can do its work, the function returns without
  error and the file holds its former lines with \<open>roothash=\<close>\<open>h\<close> among the arguments
  appended to every \<open>linux\<close> line.
\<close>

theorem customizeVerityImageHelper_root_hash:
  assumes "findFreeNBDDevice E = Inr nbd"
    and "failsWith E (Exec [''qemu-nbd'', ''-c'', nbd, ''-f'', ''raw'', img]) = None"
    and "failsWith E (GetDiskPartitions nbd) = None"
    and "verityOf cfg = Inr v"
    and "idToPartitionBlockDevicePath (PartitionIdType (DataPartition v))
           (PartitionId (DataPartition v)) nbd (parts E (GetDiskPartitions nbd)) = Inr d"
    and "idToPartitionBlockDevicePath (PartitionIdType (HashPartition v))
           (PartitionId (HashPartition v)) nbd (parts E (GetDiskPartitions nbd)) = Inr hp"
    and "failsWith E (Exec [''veritysetup'', ''format'', d, hp]) = None"
    and "out = str E (Exec [''veritysetup'', ''format'', d, hp])"
  shows "case parseRootHash out of
       Inl e \<Rightarrow>
         e = Error ''failed to parse root hash from veritysetup output''
         \<and> \<not> (\<exists>pre ws h post. rootHashMatch out pre ws h post)
         \<and> customizeVerityImageHelper E bdir base cfg img rpms useBase w =
             (Inl e, w\<lparr>trace := trace w @
                [Exec [''qemu-nbd'', ''-c'', nbd, ''-f'', ''raw'', img],
                 Exec [''veritysetup'', ''format'', d, hp],
                 Exec [''qemu-nbd'', ''-d'', nbd]]\<rparr>)
     | Inr h \<Rightarrow>
         (\<exists>pre ws post. rootHashMatch out pre ws h post
           \<and> (post = [] \<or> \<not> reHex (hd post))
           \<and> (\<forall>pre' ws' h' post'. rootHashMatch out pre' ws' h' post'
                  \<longrightarrow> length pre \<le> length pre'))
         \<and> (let ps = parts E (GetDiskPartitions nbd);
                 esp = part E (FindSystemBootPartition ps);
                 boot = part E (FindBootPartitionFromEsp esp ps bdir);
                 dir = str E (FilepathJoin bdir tmpParitionDirName);
                 grub = str E (FilepathJoin dir ''grub2/grub.cfg'');
                 mounted = w\<lparr>trace := trace w @
                   [Exec [''qemu-nbd'', ''-c'', nbd, ''-f'', ''raw'', img],
                    Exec [''veritysetup'', ''format'', d, hp],
                    FindBootPartitionFromEsp esp ps bdir,
                    NewMount (Path boot) dir (FileSystemType boot)]\<rparr>
             in failsWith E (FindSystemBootPartition ps) = None
                \<and> failsWith E (FindBootPartitionFromEsp esp ps bdir) = None
                \<and> failsWith E (NewMount (Path boot) dir (FileSystemType boot)) = None
                \<longrightarrow>
                customizeVerityImageHelper E bdir base cfg img rpms useBase w =
                  deferred
                    (deferred
                      (andThen (updateGrubConfig E
                                  (PartitionIdType (DataPartition v)) (PartitionId (DataPartition v))
                                  (PartitionIdType (HashPartition v)) (PartitionId (HashPartition v))
                                  h grub)
                         (\<lambda>_. andThen (extern E (MountCleanClose dir)) (\<lambda>_. ret ())))
                      (extern E (MountClose dir)))
                    (extern E (Exec [''qemu-nbd'', ''-d'', nbd]))
                    mounted
                \<and> (\<forall>fd fh ls.
                     systemdFormatPartitionId (PartitionIdType (DataPartition v))
                       (PartitionId (DataPartition v)) = Inr fd
                     \<and> systemdFormatPartitionId (PartitionIdType (HashPartition v))
                         (PartitionId (HashPartition v)) = Inr fh
                     \<and> failsWith E (ReadLines grub) = None
                     \<and> failsWith E (WriteLines grub) = None
                     \<and> files w grub = Some ls
                     \<and> failsWith E (MountCleanClose dir) = None
                     \<longrightarrow>
                     customizeVerityImageHelper E bdir base cfg img rpms useBase w =
                       (Inr (), w\<lparr>files := (files w)(grub \<mapsto>
                          map (\<lambda>l. if HasPrefix (TrimSpace l) ''linux ''
                                    then l @ '' rd.systemd.verity=1 roothash='' @ h
                                           @ '' systemd.verity_root_data='' @ fd
                                           @ '' systemd.verity_root_hash='' @ fh
                                           @ '' systemd.verity_root_options=panic-on-corruption''
                                    else if HasPrefix (TrimSpace l) ''set rootdevice=PARTUUID=''
                                         then ''set rootdevice=/dev/mapper/root'' else l) ls),
                        trace := trace w @
                          [Exec [''qemu-nbd'', ''-c'', nbd, ''-f'', ''raw'', img],
                           Exec [''veritysetup'', ''format'', d, hp],
                           FindBootPartitionFromEsp esp ps bdir,
                           NewMount (Path boot) dir (FileSystemType boot),
                           MountCleanClose dir,
                           MountClose dir,
                           Exec [''qemu-nbd'', ''-d'', nbd]]\<rparr>)))"
proof (cases "parseRootHash out")
  case (Inl e)
  then have e: "e = Error ''failed to parse root hash from veritysetup output''"
    by (auto simp: parseRootHash_def Let_def split: if_splits)
  with Inl have "\<not> (\<exists>pre ws h post. rootHashMatch out pre ws h post)"
    by (simp add: parseRootHash_error_iff)
  moreover have "customizeVerityImageHelper E bdir base cfg img rpms useBase w =
      (Inl e, w\<lparr>trace := trace w @
         [Exec [''qemu-nbd'', ''-c'', nbd, ''-f'', ''raw'', img],
          Exec [''veritysetup'', ''format'', d, hp],
          Exec [''qemu-nbd'', ''-d'', nbd]]\<rparr>)"
    using assms Inl
    by (simp add: customizeVerityImageHelper_def andThen_def lift_def wrap_def wrapResult_def
        deferred_def extern_def ask_def)
  ultimately show ?thesis
    using Inl e by simp
next
  case (Inr h)
  define ps where "ps = parts E (GetDiskPartitions nbd)"
  define esp where "esp = part E (FindSystemBootPartition ps)"
  define boot where "boot = part E (FindBootPartitionFromEsp esp ps bdir)"
  define dir where "dir = str E (FilepathJoin bdir tmpParitionDirName)"
  define grub where "grub = str E (FilepathJoin dir ''grub2/grub.cfg'')"
  note names = ps_def esp_def boot_def dir_def grub_def
  define mounted where "mounted = w\<lparr>trace := trace w @
      [Exec [''qemu-nbd'', ''-c'', nbd, ''-f'', ''raw'', img],
       Exec [''veritysetup'', ''format'', d, hp],
       FindBootPartitionFromEsp esp ps bdir,
       NewMount (Path boot) dir (FileSystemType boot)]\<rparr>"
  define rest where "rest =
      deferred
        (deferred
          (andThen (updateGrubConfig E
                      (PartitionIdType (DataPartition v)) (PartitionId (DataPartition v))
                      (PartitionIdType (HashPartition v)) (PartitionId (HashPartition v))
                      h grub)
             (\<lambda>_. andThen (extern E (MountCleanClose dir)) (\<lambda>_. ret ())))
          (extern E (MountClose dir)))
        (extern E (Exec [''qemu-nbd'', ''-d'', nbd]))"
  have run: "customizeVerityImageHelper E bdir base cfg img rpms useBase w = rest mounted"
    if "failsWith E (FindSystemBootPartition ps) = None"
      and "failsWith E (FindBootPartitionFromEsp esp ps bdir) = None"
      and "failsWith E (NewMount (Path boot) dir (FileSystemType boot)) = None"
    using assms Inr that
    unfolding rest_def mounted_def names
    by (simp add: customizeVerityImageHelper_def andThen_def lift_def wrap_def wrapResult_def
        deferred_def extern_def ask_def Let_def split: prod.splits)
  have patched: "rest mounted =
      (Inr (), w\<lparr>files := (files w)(grub \<mapsto>
          map (\<lambda>l. if HasPrefix (TrimSpace l) ''linux ''
                    then l @ '' rd.systemd.verity=1 roothash='' @ h
                           @ '' systemd.verity_root_data='' @ fd
                           @ '' systemd.verity_root_hash='' @ fh
                           @ '' systemd.verity_root_options=panic-on-corruption''
                    else if HasPrefix (TrimSpace l) ''set rootdevice=PARTUUID=''
                         then ''set rootdevice=/dev/mapper/root'' else l) ls),
        trace := trace w @
          [Exec [''qemu-nbd'', ''-c'', nbd, ''-f'', ''raw'', img],
           Exec [''veritysetup'', ''format'', d, hp],
           FindBootPartitionFromEsp esp ps bdir,
           NewMount (Path boot) dir (FileSystemType boot),
           MountCleanClose dir,
           MountClose dir,
           Exec [''qemu-nbd'', ''-d'', nbd]]\<rparr>)"
    if "systemdFormatPartitionId (PartitionIdType (DataPartition v))
          (PartitionId (DataPartition v)) = Inr fd"
      and "systemdFormatPartitionId (PartitionIdType (HashPartition v))
          (PartitionId (HashPartition v)) = Inr fh"
      and "failsWith E (ReadLines grub) = None"
      and "failsWith E (WriteLines grub) = None"
      and "files w grub = Some ls"
      and "failsWith E (MountCleanClose dir) = None"
    for fd fh ls
    using that
    unfolding rest_def mounted_def
    by (simp add: updateGrubConfig_def updateGrubLines_map andThen_def lift_def wrap_def
        wrapResult_def deferred_def extern_def ask_def ret_def readLines_def writeLines_def
        Let_def cong: if_cong)
  from parseRootHash_group [OF Inr] have group:
    "\<exists>pre ws post. rootHashMatch out pre ws h post
           \<and> (post = [] \<or> \<not> reHex (hd post))
           \<and> (\<forall>pre' ws' h' post'. rootHashMatch out pre' ws' h' post'
                  \<longrightarrow> length pre \<le> length pre')" .
  show ?thesis
    unfolding Inr sum.case Let_def
  proof (intro conjI impI allI)
    show "\<exists>pre ws post. rootHashMatch out pre ws h post
           \<and> (post = [] \<or> \<not> reHex (hd post))
           \<and> (\<forall>pre' ws' h' post'. rootHashMatch out pre' ws' h' post'
                  \<longrightarrow> length pre \<le> length pre')"
      by (rule group)
  next
    assume a: "failsWith E (FindSystemBootPartition (parts E (GetDiskPartitions nbd))) = None \<and>
      failsWith E (FindBootPartitionFromEsp (part E (FindSystemBootPartition (parts E (GetDiskPartitions nbd)))) (parts E (GetDiskPartitions nbd)) bdir) = None \<and>
      failsWith E (NewMount (Path (part E (FindBootPartitionFromEsp (part E (FindSystemBootPartition (parts E (GetDiskPartitions nbd)))) (parts E (GetDiskPartitions nbd)) bdir)))
         (str E (FilepathJoin bdir tmpParitionDirName))
         (FileSystemType (part E (FindBootPartitionFromEsp (part E (FindSystemBootPartition (parts E (GetDiskPartitions nbd)))) (parts E (GetDiskPartitions nbd)) bdir)))) = None"
    then show "customizeVerityImageHelper E bdir base cfg img rpms useBase w =
      deferred
        (deferred
          (andThen (updateGrubConfig E
                      (PartitionIdType (DataPartition v)) (PartitionId (DataPartition v))
                      (PartitionIdType (HashPartition v)) (PartitionId (HashPartition v))
                      h (str E (FilepathJoin (str E (FilepathJoin bdir tmpParitionDirName)) ''grub2/grub.cfg'')))
             (\<lambda>_. andThen (extern E (MountCleanClose (str E (FilepathJoin bdir tmpParitionDirName)))) (\<lambda>_. ret ())))
          (extern E (MountClose (str E (FilepathJoin bdir tmpParitionDirName)))))
        (extern E (Exec [''qemu-nbd'', ''-d'', nbd]))
        (w\<lparr>trace := trace w @
                   [Exec [''qemu-nbd'', ''-c'', nbd, ''-f'', ''raw'', img],
                    Exec [''veritysetup'', ''format'', d, hp],
                    FindBootPartitionFromEsp (part E (FindSystemBootPartition (parts E (GetDiskPartitions nbd)))) (parts E (GetDiskPartitions nbd)) bdir,
                    NewMount (Path (part E (FindBootPartitionFromEsp (part E (FindSystemBootPartition (parts E (GetDiskPartitions nbd)))) (parts E (GetDiskPartitions nbd)) bdir))) (str E (FilepathJoin bdir tmpParitionDirName)) (FileSystemType (part E (FindBootPartitionFromEsp (part E (FindSystemBootPartition (parts E (GetDiskPartitions nbd)))) (parts E (GetDiskPartitions nbd)) bdir)))]\<rparr>)"
      using run unfolding rest_def mounted_def names by simp
  next
    fix fd fh ls
    assume a: "failsWith E (FindSystemBootPartition (parts E (GetDiskPartitions nbd))) = None \<and>
      failsWith E (FindBootPartitionFromEsp (part E (FindSystemBootPartition (parts E (GetDiskPartitions nbd)))) (parts E (GetDiskPartitions nbd)) bdir) = None \<and>
      failsWith E (NewMount (Path (part E (FindBootPartitionFromEsp (part E (FindSystemBootPartition (parts E (GetDiskPartitions nbd)))) (parts E (GetDiskPartitions nbd)) bdir)))
         (str E (FilepathJoin bdir tmpParitionDirName))
         (FileSystemType (part E (FindBootPartitionFromEsp (part E (FindSystemBootPartition (parts E (GetDiskPartitions nbd)))) (parts E (GetDiskPartitions nbd)) bdir)))) = None"
    assume b: "systemdFormatPartitionId (PartitionIdType (DataPartition v))
                       (PartitionId (DataPartition v)) = Inr fd
                     \<and> systemdFormatPartitionId (PartitionIdType (HashPartition v))
                         (PartitionId (HashPartition v)) = Inr fh
                     \<and> failsWith E (ReadLines (str E (FilepathJoin (str E (FilepathJoin bdir tmpParitionDirName)) ''grub2/grub.cfg''))) = None
                     \<and> failsWith E (WriteLines (str E (FilepathJoin (str E (FilepathJoin bdir tmpParitionDirName)) ''grub2/grub.cfg''))) = None
                     \<and> files w (str E (FilepathJoin (str E (FilepathJoin bdir tmpParitionDirName)) ''grub2/grub.cfg'')) = Some ls
                     \<and> failsWith E (MountCleanClose (str E (FilepathJoin bdir tmpParitionDirName))) = None"
    from a have "customizeVerityImageHelper E bdir base cfg img rpms useBase w = rest mounted"
      using run unfolding names by simp
    also from b have "rest mounted = (Inr (), w\<lparr>files := (files w)(grub \<mapsto>
          map (\<lambda>l. if HasPrefix (TrimSpace l) ''linux ''
                    then l @ '' rd.systemd.verity=1 roothash='' @ h
                           @ '' systemd.verity_root_data='' @ fd
                           @ '' systemd.verity_root_hash='' @ fh
                           @ '' systemd.verity_root_options=panic-on-corruption''
                    else if HasPrefix (TrimSpace l) ''set rootdevice=PARTUUID=''
                         then ''set rootdevice=/dev/mapper/root'' else l) ls),
        trace := trace w @
          [Exec [''qemu-nbd'', ''-c'', nbd, ''-f'', ''raw'', img],
           Exec [''veritysetup'', ''format'', d, hp],
           FindBootPartitionFromEsp esp ps bdir,
           NewMount (Path boot) dir (FileSystemType boot),
           MountCleanClose dir,
           MountClose dir,
           Exec [''qemu-nbd'', ''-d'', nbd]]\<rparr>)"
      using patched [of fd fh ls] unfolding names by simp
    finally show "customizeVerityImageHelper E bdir base cfg img rpms useBase w =
                       (Inr (), w\<lparr>files := (files w)(str E (FilepathJoin (str E (FilepathJoin bdir tmpParitionDirName)) ''grub2/grub.cfg'') \<mapsto>
                          map (\<lambda>l. if HasPrefix (TrimSpace l) ''linux ''
                                    then l @ '' rd.systemd.verity=1 roothash='' @ h
                                           @ '' systemd.verity_root_data='' @ fd
                                           @ '' systemd.verity_root_hash='' @ fh
                                           @ '' systemd.verity_root_options=panic-on-corruption''
                                    else if HasPrefix (TrimSpace l) ''set rootdevice=PARTUUID=''
                                         then ''set rootdevice=/dev/mapper/root'' else l) ls),
                        trace := trace w @
                          [Exec [''qemu-nbd'', ''-c'', nbd, ''-f'', ''raw'', img],
                           Exec [''veritysetup'', ''format'', d, hp],
                           FindBootPartitionFromEsp (part E (FindSystemBootPartition (parts E (GetDiskPartitions nbd)))) (parts E (GetDiskPartitions nbd)) bdir,
                           NewMount (Path (part E (FindBootPartitionFromEsp (part E (FindSystemBootPartition (parts E (GetDiskPartitions nbd)))) (parts E (GetDiskPartitions nbd)) bdir))) (str E (FilepathJoin bdir tmpParitionDirName)) (FileSystemType (part E (FindBootPartitionFromEsp (part E (FindSystemBootPartition (parts E (GetDiskPartitions nbd)))) (parts E (GetDiskPartitions nbd)) bdir))),
                           MountCleanClose (str E (FilepathJoin bdir tmpParitionDirName)),
                           MountClose (str E (FilepathJoin bdir tmpParitionDirName)),
                           Exec [''qemu-nbd'', ''-d'', nbd]]\<rparr>)"
      unfolding names by simp
  qed
qed


lemma verityEnv_reaches:
  "findFreeNBDDevice (verityEnv out) = Inr ''/dev/nbd0''"
  "failsWith (verityEnv out) c = None"
  "verityOf verityConfig = Inr (the (Verity (the (OS verityConfig))))"
  "parts (verityEnv out) c = verityDisk"
  "part (verityEnv out) c = verityDisk ! 1"
  "str (verityEnv out) (Exec [''veritysetup'', ''format'', ''/dev/nbd0p3'', ''/dev/nbd0p4'']) = out"
  "str (verityEnv out) (FilepathJoin ''/build'' tmpParitionDirName) = ''/build/tmppartition''"
  "str (verityEnv out) (FilepathJoin ''/build/tmppartition'' ''grub2/grub.cfg'') =
     ''/build/tmppartition/grub2/grub.cfg''"
  by (simp_all add: findFreeNBDDevice_def verityEnv_def quietEnv_def verityOf_def verityConfig_def
      tmpParitionDirName_def)

lemma verityDisk_resolves:
  "idToPartitionBlockDevicePath IdTypePartuuid ''11112222-0003'' nbd verityDisk = Inr ''/dev/nbd0p3''"
  "idToPartitionBlockDevicePath IdTypePartlabel ''roothash'' nbd verityDisk = Inr ''/dev/nbd0p4''"
  by (simp_all add: verityDisk_def IdType_distinct)

theorem customizeVerityImageHelper_root_hash_witness:
  "parseRootHash veritysetupOutput = Inr ''9f8e7d6c5b4a''
   \<and> (\<exists>pre ws post. rootHashMatch veritysetupOutput pre ws ''9f8e7d6c5b4a'' post
         \<and> (post = [] \<or> \<not> reHex (hd post))
         \<and> (\<forall>pre' ws' h' post'. rootHashMatch veritysetupOutput pre' ws' h' post'
                \<longrightarrow> length pre \<le> length pre'))
   \<and> customizeVerityImageHelper (verityEnv veritysetupOutput) ''/build'' ''/cfg''
        verityConfig ''/build/image.raw'' [] False verityWorld =
       (Inr (),
        \<lparr>files = [''/build/tmppartition/grub2/grub.cfg'' \<mapsto>
           [''set timeout=0'',
            ''set rootdevice=/dev/mapper/root'',
            ''menuentry one {'',
            ''    linux /boot/vmlinuz root=$rootdevice ro rd.systemd.verity=1 roothash=9f8e7d6c5b4a systemd.verity_root_data=PARTUUID=11112222-0003 systemd.verity_root_hash=PARTLABEL=roothash systemd.verity_root_options=panic-on-corruption'',
            ''    initrd /boot/initrd.img'',
            ''}'']],
         trace =
          [Exec [''qemu-nbd'', ''-c'', ''/dev/nbd0'', ''-f'', ''raw'', ''/build/image.raw''],
           Exec [''veritysetup'', ''format'', ''/dev/nbd0p3'', ''/dev/nbd0p4''],
           FindBootPartitionFromEsp (verityDisk ! 1) verityDisk ''/build'',
           NewMount ''/dev/nbd0p2'' ''/build/tmppartition'' ''ext4'',
           MountCleanClose ''/build/tmppartition'',
           MountClose ''/build/tmppartition'',
           Exec [''qemu-nbd'', ''-d'', ''/dev/nbd0'']]\<rparr>)
   \<and> parseRootHash ''Command failed with code -1'' =
        Inl (Error ''failed to parse root hash from veritysetup output'')
   \<and> customizeVerityImageHelper (verityEnv ''Command failed with code -1'') ''/build'' ''/cfg''
        verityConfig ''/build/image.raw'' [] False verityWorld =
       (Inl (Error ''failed to parse root hash from veritysetup output''),
        verityWorld\<lparr>trace :=
          [Exec [''qemu-nbd'', ''-c'', ''/dev/nbd0'', ''-f'', ''raw'', ''/build/image.raw''],
           Exec [''veritysetup'', ''format'', ''/dev/nbd0p3'', ''/dev/nbd0p4''],
           Exec [''qemu-nbd'', ''-d'', ''/dev/nbd0'']]\<rparr>)"
proof -
  have v: "the (Verity (the (OS verityConfig))) =
      \<lparr>DataPartition = \<lparr>PartitionIdType = IdTypePartuuid, PartitionId = ''11112222-0003''\<rparr>,
       HashPartition = \<lparr>PartitionIdType = IdTypePartlabel, PartitionId = ''roothash''\<rparr>\<rparr>"
    by (simp add: verityConfig_def)
  have good: "parseRootHash veritysetupOutput = Inr ''9f8e7d6c5b4a''"
    by code_simp
  have bad: "parseRootHash ''Command failed with code -1'' =
      Inl (Error ''failed to parse root hash from veritysetup output'')"
    by code_simp
  have boot: "Path (verityDisk ! Suc 0) = ''/dev/nbd0p2''"
    "FileSystemType (verityDisk ! Suc 0) = ''ext4''"
    by (simp_all add: verityDisk_def)
  have fmt: "systemdFormatPartitionId IdTypePartuuid ''11112222-0003'' =
      Inr ''PARTUUID=11112222-0003''"
    "systemdFormatPartitionId IdTypePartlabel ''roothash'' = Inr ''PARTLABEL=roothash''"
    by code_simp+
  have w: "trace verityWorld = []"
    "files verityWorld ''/build/tmppartition/grub2/grub.cfg'' =
       Some [''set timeout=0'',
             ''set rootdevice=PARTUUID=11112222-0003'',
             ''menuentry one {'',
             ''    linux /boot/vmlinuz root=$rootdevice ro'',
             ''    initrd /boot/initrd.img'',
             ''}'']"
    by (simp_all add: verityWorld_def)
  have t: "TrimSpace ''set timeout=0'' = ''set timeout=0''"
    "TrimSpace ''set rootdevice=PARTUUID=11112222-0003'' =
       ''set rootdevice=PARTUUID=11112222-0003''"
    "TrimSpace ''menuentry one {'' = ''menuentry one {''"
    "TrimSpace ''    linux /boot/vmlinuz root=$rootdevice ro'' =
       ''linux /boot/vmlinuz root=$rootdevice ro''"
    "TrimSpace ''    initrd /boot/initrd.img'' = ''initrd /boot/initrd.img''"
    "TrimSpace ''}'' = ''}''"
    by code_simp+
  note run = customizeVerityImageHelper_root_hash
      [where nbd = "''/dev/nbd0''"
         and img = "''/build/image.raw''" and cfg = verityConfig
         and v = "the (Verity (the (OS verityConfig)))"
         and d = "''/dev/nbd0p3''" and hp = "''/dev/nbd0p4''"
         and bdir = "''/build''" and base = "''/cfg''" and rpms = "[]" and useBase = False
         and w = verityWorld]
  have 1: "(\<exists>pre ws post. rootHashMatch veritysetupOutput pre ws ''9f8e7d6c5b4a'' post
         \<and> (post = [] \<or> \<not> reHex (hd post))
         \<and> (\<forall>pre' ws' h' post'. rootHashMatch veritysetupOutput pre' ws' h' post'
                \<longrightarrow> length pre \<le> length pre'))
     \<and> customizeVerityImageHelper (verityEnv veritysetupOutput) ''/build'' ''/cfg''
        verityConfig ''/build/image.raw'' [] False verityWorld =
       (Inr (),
        \<lparr>files = [''/build/tmppartition/grub2/grub.cfg'' \<mapsto>
           [''set timeout=0'',
            ''set rootdevice=/dev/mapper/root'',
            ''menuentry one {'',
            ''    linux /boot/vmlinuz root=$rootdevice ro rd.systemd.verity=1 roothash=9f8e7d6c5b4a systemd.verity_root_data=PARTUUID=11112222-0003 systemd.verity_root_hash=PARTLABEL=roothash systemd.verity_root_options=panic-on-corruption'',
            ''    initrd /boot/initrd.img'',
            ''}'']],
         trace =
          [Exec [''qemu-nbd'', ''-c'', ''/dev/nbd0'', ''-f'', ''raw'', ''/build/image.raw''],
           Exec [''veritysetup'', ''format'', ''/dev/nbd0p3'', ''/dev/nbd0p4''],
           FindBootPartitionFromEsp (verityDisk ! 1) verityDisk ''/build'',
           NewMount ''/dev/nbd0p2'' ''/build/tmppartition'' ''ext4'',
           MountCleanClose ''/build/tmppartition'',
           MountClose ''/build/tmppartition'',
           Exec [''qemu-nbd'', ''-d'', ''/dev/nbd0'']]\<rparr>)"
    using run [where E = "verityEnv veritysetupOutput" and out = veritysetupOutput]
    apply (simp add: v verityEnv_reaches verityDisk_resolves good boot fmt w t HasPrefix_def
        Let_def verityWorld_def)
    apply (elim conjE)
    apply simp
    done
  have 2: "customizeVerityImageHelper (verityEnv ''Command failed with code -1'') ''/build'' ''/cfg''
        verityConfig ''/build/image.raw'' [] False verityWorld =
       (Inl (Error ''failed to parse root hash from veritysetup output''),
        verityWorld\<lparr>trace :=
          [Exec [''qemu-nbd'', ''-c'', ''/dev/nbd0'', ''-f'', ''raw'', ''/build/image.raw''],
           Exec [''veritysetup'', ''format'', ''/dev/nbd0p3'', ''/dev/nbd0p4''],
           Exec [''qemu-nbd'', ''-d'', ''/dev/nbd0'']]\<rparr>)"
    using run [where E = "verityEnv ''Command failed with code -1''"
         and out = "''Command failed with code -1''"]
    by (simp add: v verityEnv_reaches verityDisk_resolves bad w)
  from good 1 bad 2 show ?thesis by simp
qed



section \<open>Package sources\<close>

text \<open>
  The rule of the package sources, for a configuration that passes the structural check
  and the check of the \<open>Iso\<close> section and has an \<open>OS\<close> section whose list files can be
  merged: with no RPM source and the base-image flag unset, validation rejects it with the
  error about packages when the merged install or update list is not empty or existing
  packages are to be updated, and otherwise with the error about customized partitions
  when the \<open>Storage\<close> section is present. In every other case the check of the package
  lists accepts and leaves the merged lists in the section.
\<close>

lemma validateConfig_package_sources:
  assumes "failsWith E (ConfigIsValid cfg) = None"
    and "validateIsoConfig E base (Iso cfg) = Inr ()"
    and "OS cfg = Some os"
    and "collectPackagesList E base (RemoveLists (Packages os)) (Remove (Packages os)) = Inr rmv"
    and "collectPackagesList E base (InstallLists (Packages os)) (Install (Packages os)) = Inr ins"
    and "collectPackagesList E base (UpdateLists (Packages os)) (Update (Packages os)) = Inr upd"
  shows "if rpms = [] \<and> \<not> useBase
            \<and> (ins \<noteq> [] \<or> upd \<noteq> [] \<or> UpdateExistingPackages (Packages os))
         then validateConfig E base cfg rpms useBase = Inl (Error
           ''have packages to install or update but no RPM sources were specified'')
         else if rpms = [] \<and> \<not> useBase \<and> Storage cfg \<noteq> None
         then validateConfig E base cfg rpms useBase = Inl (Error
           ''partitions were customized so the initramfs package needs to be reinstalled but no RPM sources were specified'')
         else validatePackageLists E base (OS cfg) rpms useBase
                (hasPartitionCustomizations cfg) =
              Inr (os\<lparr>Packages := (Packages os)
                     \<lparr>Remove := rmv, Install := ins, Update := upd,
                      RemoveLists := [], InstallLists := [], UpdateLists := []\<rparr>\<rparr>)"
  using assms
  by (simp add: validateConfig_def validateSystemConfig_def validatePackageLists_def bindR_def
      ask_def hasPartitionCustomizations_def Let_def)

lemma validateConfig_package_sources_examples:
  "validateConfig pkgEnv ''/cfg'' (pkgConfig [''vim''] None) [] False =
     Inl (Error ''have packages to install or update but no RPM sources were specified'')
   \<and> validatePackageLists pkgEnv ''/cfg'' (OS (pkgConfig [''vim''] None)) [''/rpms''] False
       (hasPartitionCustomizations (pkgConfig [''vim''] None)) =
     Inr (the (OS (pkgConfig [''vim''] None)))
   \<and> validateConfig pkgEnv ''/cfg'' (pkgConfig [] (Some StorageSection)) [] False =
     Inl (Error ''partitions were customized so the initramfs package needs to be reinstalled but no RPM sources were specified'')"
proof -
  have e: "failsWith pkgEnv c = None" "validateIsoConfig pkgEnv b None = Inr ()"
    "collectPackagesList pkgEnv b ls ps = Inr ps" for c b ls ps
    by (simp_all add: pkgEnv_def quietEnv_def validateIsoConfig_def collectPackagesList_def)
  note t = validateConfig_package_sources [where E = pkgEnv and base = "''/cfg''"
      and rmv = "[]" and upd = "[]" and useBase = False]
  have 1: "validateConfig pkgEnv ''/cfg'' (pkgConfig [''vim''] None) [] False =
     Inl (Error ''have packages to install or update but no RPM sources were specified'')"
    using t [where cfg = "pkgConfig [''vim''] None" and ins = "[''vim'']" and rpms = "[]"
        and os = "the (OS (pkgConfig [''vim''] None))"]
    by (simp add: e pkgConfig_def)
  have 2: "validatePackageLists pkgEnv ''/cfg'' (OS (pkgConfig [''vim''] None)) [''/rpms''] False
       (hasPartitionCustomizations (pkgConfig [''vim''] None)) =
     Inr (the (OS (pkgConfig [''vim''] None)))"
    using t [where cfg = "pkgConfig [''vim''] None" and ins = "[''vim'']"
        and rpms = "[''/rpms'']" and os = "the (OS (pkgConfig [''vim''] None))"]
    by (simp add: e pkgConfig_def)
  have 3: "validateConfig pkgEnv ''/cfg'' (pkgConfig [] (Some StorageSection)) [] False =
     Inl (Error ''partitions were customized so the initramfs package needs to be reinstalled but no RPM sources were specified'')"
    using t [where cfg = "pkgConfig [] (Some StorageSection)" and ins = "[]" and rpms = "[]"
        and os = "the (OS (pkgConfig [] (Some StorageSection)))"]
    by (simp add: e pkgConfig_def)
  from 1 2 3 show ?thesis by simp
qed

text \<open>
  Claim C3. The rule names the presence of the \<open>Storage\<close> section as one of the conditions
  that ask for an RPM source. For the configuration that has a \<open>Storage\<close> section and no
  \<open>OS\<close> section, given with no RPM source and the base-image flag unset, the partitions
  are customized and validation does not return the error about customized partitions:
  \<open>validateConfig\<close> hands the \<open>nil\<close> pointer \<open>config.OS\<close> to
  \<open>validateSystemConfig\<close>, and \<open>validatePackageLists\<close> reads \<open>config.Packages\<close>
  through it (part\_001, line 472) before the sources are looked at, so the call panics. The
  same configuration with an \<open>OS\<close> section that names no package is rejected with that
  error.
\<close>

theorem validateConfig_storage_without_OS:
  "Storage storageOnlyConfig = Some StorageSection
   \<and> OS storageOnlyConfig = None
   \<and> hasPartitionCustomizations storageOnlyConfig
   \<and> failsWith pkgEnv (ConfigIsValid storageOnlyConfig) = None
   \<and> validateConfig pkgEnv ''/cfg'' storageOnlyConfig [] False =
       Inl (Panic ''nil pointer dereference: config.Packages'')
   \<and> validateConfig pkgEnv ''/cfg'' (storageOnlyConfig\<lparr>OS := OS (pkgConfig [] None)\<rparr>) [] False =
       Inl (Error ''partitions were customized so the initramfs package needs to be reinstalled but no RPM sources were specified'')"
  by (simp add: storageOnlyConfig_def pkgConfig_def pkgEnv_def quietEnv_def validateConfig_def
      validateIsoConfig_def validateSystemConfig_def validatePackageLists_def
      collectPackagesList_def hasPartitionCustomizations_def bindR_def ask_def Let_def)



section \<open>What the stages of the pipeline add to the log\<close>

lemma addsOnly_ret: "addsOnly P (ret x)"
  and addsOnly_lift: "addsOnly P (lift r)"
  by (simp_all add: addsOnly_def ret_def lift_def)

lemma addsOnly_extern: "P c \<Longrightarrow> addsOnly P (extern E c)"
  by (simp add: addsOnly_def extern_def)

lemma addsOnly_readLines: "addsOnly P (readLines E path)"
  and addsOnly_writeLines: "addsOnly P (writeLines E ls path)"
  by (auto simp: addsOnly_def readLines_def writeLines_def split: option.splits)

lemma snd_wrap: "snd (wrap pre m w) = snd (m w)"
  by (simp add: wrap_def split: prod.splits)

lemma addsOnly_wrap: "addsOnly P m \<Longrightarrow> addsOnly P (wrap pre m)"
  by (simp add: addsOnly_def snd_wrap)

lemma addsOnly_andThen:
  assumes "addsOnly P m" and "\<And>x. addsOnly P (f x)"
  shows "addsOnly P (andThen m f)"
  unfolding addsOnly_def
proof
  fix w
  obtain r w1 where m: "m w = (r, w1)" by (cases "m w")
  from assms(1) m obtain t1 where t1: "trace w1 = trace w @ t1" "list_all P t1"
    unfolding addsOnly_def by (metis snd_conv)
  show "\<exists>t. trace (snd (andThen m f w)) = trace w @ t \<and> list_all P t"
  proof (cases r)
    case (Inl e)
    with m t1 show ?thesis by (auto simp: andThen_def)
  next
    case (Inr x)
    from assms(2) [of x] obtain t2 where "trace (snd (f x w1)) = trace w1 @ t2" "list_all P t2"
      unfolding addsOnly_def by blast
    with m t1 Inr show ?thesis
      by (auto simp: andThen_def intro!: exI [of _ "t1 @ t2"])
  qed
qed

lemma addsOnly_deferred:
  assumes "addsOnly P m" and "addsOnly P d"
  shows "addsOnly P (deferred m d)"
  unfolding addsOnly_def
proof
  fix w
  obtain r w1 where m: "m w = (r, w1)" by (cases "m w")
  from assms(1) m obtain t1 where t1: "trace w1 = trace w @ t1" "list_all P t1"
    unfolding addsOnly_def by (metis snd_conv)
  from assms(2) obtain t2 where "trace (snd (d w1)) = trace w1 @ t2" "list_all P t2"
    unfolding addsOnly_def by blast
  with m t1 show "\<exists>t. trace (snd (deferred m d w)) = trace w @ t \<and> list_all P t"
    by (auto simp: deferred_def intro!: exI [of _ "t1 @ t2"])
qed

lemma addsOnly_if:
  "(c \<Longrightarrow> addsOnly P a) \<Longrightarrow> (\<not> c \<Longrightarrow> addsOnly P b) \<Longrightarrow> addsOnly P (if c then a else b)"
  by simp

lemmas addsOnly_intros = addsOnly_ret addsOnly_lift addsOnly_extern addsOnly_readLines
  addsOnly_writeLines addsOnly_wrap addsOnly_andThen addsOnly_deferred addsOnly_if



lemma keeps_ret: "keeps I P (ret x) cp"
  and keeps_lift: "keeps I P (lift r) cp"
  by (simp_all add: keeps_def ret_def lift_def)

lemma keeps_onWorld: "addsOnly P m \<Longrightarrow> keeps I P (onWorld m) cp"
  by (simp add: keeps_def onWorld_def addsOnly_def split: prod.splits) (metis snd_conv)

lemma keeps_setCp: "(I cp \<Longrightarrow> I (f cp)) \<Longrightarrow> keeps I P (setCp f) cp"
  by (simp add: keeps_def setCp_def)

lemma keeps_wrap: "keeps I P m cp \<Longrightarrow> keeps I P (wrap pre m) cp"
  by (simp add: keeps_def snd_wrap)

lemma keeps_getCp: "(I cp \<Longrightarrow> keeps I P (f cp) cp) \<Longrightarrow> keeps I P (andThen getCp f) cp"
  by (simp add: keeps_def andThen_def getCp_def)

lemma keeps_andThen:
  assumes "keeps I P m cp" and "\<And>x cp'. keeps I P (f x) cp'"
  shows "keeps I P (andThen m f) cp"
  unfolding keeps_def
proof (intro impI allI)
  fix w
  assume i: "I cp"
  obtain r cp1 w1 where m: "m (cp, w) = (r, (cp1, w1))"
    by (cases "m (cp, w)") auto
  from assms(1) i m obtain t1 where t1: "I cp1" "trace w1 = trace w @ t1" "list_all P t1"
    unfolding keeps_def by (metis fst_conv snd_conv)
  show "I (fst (snd (andThen m f (cp, w))))
      \<and> (\<exists>t. trace (snd (snd (andThen m f (cp, w)))) = trace w @ t \<and> list_all P t)"
  proof (cases r)
    case (Inl e)
    with m t1 show ?thesis by (auto simp: andThen_def)
  next
    case (Inr x)
    from assms(2) [of x cp1] t1(1) obtain t2 where
      "I (fst (snd (f x (cp1, w1))))" "trace (snd (snd (f x (cp1, w1)))) = trace w1 @ t2"
      "list_all P t2"
      unfolding keeps_def by blast
    with m t1 Inr show ?thesis
      by (auto simp: andThen_def intro!: exI [of _ "t1 @ t2"])
  qed
qed

lemma keeps_deferred:
  assumes "keeps I P m cp" and "\<And>cp'. keeps I P d cp'"
  shows "keeps I P (deferred m d) cp"
  unfolding keeps_def
proof (intro impI allI)
  fix w
  assume i: "I cp"
  obtain r cp1 w1 where m: "m (cp, w) = (r, (cp1, w1))"
    by (cases "m (cp, w)") auto
  from assms(1) i m obtain t1 where t1: "I cp1" "trace w1 = trace w @ t1" "list_all P t1"
    unfolding keeps_def by (metis fst_conv snd_conv)
  from assms(2) [of cp1] t1(1) obtain t2 where
    "I (fst (snd (d (cp1, w1))))" "trace (snd (snd (d (cp1, w1)))) = trace w1 @ t2"
    "list_all P t2"
    unfolding keeps_def by blast
  with m t1 show "I (fst (snd (deferred m d (cp, w))))
      \<and> (\<exists>t. trace (snd (snd (deferred m d (cp, w)))) = trace w @ t \<and> list_all P t)"
    by (auto simp: deferred_def intro!: exI [of _ "t1 @ t2"])
qed

lemma keeps_if:
  "(c \<Longrightarrow> keeps I P a cp) \<Longrightarrow> (\<not> c \<Longrightarrow> keeps I P b cp) \<Longrightarrow> keeps I P (if c then a else b) cp"
  by simp

lemma addsOnly_runWith: "I cp \<Longrightarrow> keeps I P m cp \<Longrightarrow> addsOnly P (runWith cp m)"
  by (simp add: keeps_def addsOnly_def runWith_def split: prod.splits) (metis snd_conv)

lemmas keeps_intros = keeps_ret keeps_lift keeps_onWorld keeps_setCp keeps_wrap keeps_getCp
  keeps_andThen keeps_deferred keeps_if

lemma mundane_notOutput: "mundane (notOutput img)"
  and mundane_notRecreate: "mundane notRecreate"
  by (simp_all add: mundane_def notOutput_def notRecreate_def)

lemma mundaneD:
  assumes "mundane P"
  shows "P (Lib name args)" "P (CustomizePartitions a b cf d)"
    "P (DoCustomizations a b cf d rs u pc)" "P (CreateWriteableImageFromSquashfs ib a b)"
    "P (FindBootPartitionFromEsp p ps b)" "P (Exec (''qemu-nbd'' # args))"
    "P (Exec (''veritysetup'' # args))"
  using assms by (simp_all add: mundane_def)

lemma addsOnly_updateGrubConfig: "addsOnly P (updateGrubConfig E dt di ht hi rh path)"
  unfolding updateGrubConfig_def Let_def
  by (intro addsOnly_intros)

lemma addsOnly_customizeVerityImageHelper:
  assumes m: "mundane P"
  shows "addsOnly P (customizeVerityImageHelper E b base cf raw rs u)"
  unfolding customizeVerityImageHelper_def Let_def
  by (intro addsOnly_intros addsOnly_updateGrubConfig mundaneD [OF m])

lemma addsOnly_customizeImageHelper:
  assumes m: "mundane P"
  shows "addsOnly P (customizeImageHelper E b base cf raw rs u pc)"
  unfolding customizeImageHelper_def
  by (intro addsOnly_intros mundaneD [OF m])

lemma addsOnly_shrinkFilesystemsHelper:
  assumes m: "mundane P"
  shows "addsOnly P (shrinkFilesystemsHelper E raw)"
  unfolding shrinkFilesystemsHelper_def
  by (intro addsOnly_intros mundaneD [OF m])

lemma addsOnly_extractPartitionsHelper:
  assumes m: "mundane P"
  shows "addsOnly P (extractPartitionsHelper E raw d b f)"
  unfolding extractPartitionsHelper_def
  by (intro addsOnly_intros mundaneD [OF m])

lemma addsOnly_initCommonParameters:
  assumes m: "mundane P"
  shows "addsOnly P
     (initCommonParameters E bdir img base cfg useBase rpms shrink splitFmt fmt outFile)"
  unfolding initCommonParameters_def Let_def
  by (intro addsOnly_intros mundaneD [OF m])

lemma keeps_customizeOSContents:
  assumes m: "mundane P" and raw: "\<And>c r. I c \<Longrightarrow> I (c\<lparr>rawImageFile := r\<rparr>)"
  shows "keeps I P (customizeOSContents E) cp"
  unfolding customizeOSContents_def Let_def
proof (intro keeps_getCp keeps_if keeps_ret keeps_andThen keeps_onWorld keeps_wrap
    keeps_setCp addsOnly_intros addsOnly_customizeImageHelper [OF m]
    addsOnly_shrinkFilesystemsHelper [OF m]
    addsOnly_extractPartitionsHelper [OF m] mundaneD [OF m] raw)
  fix x cp' xa cp'a xb cp'b xc cp'c xd cp'd
  show "keeps I P
        (case OS (config xb) of
           None \<Rightarrow> lift (Inl (Panic ''nil pointer dereference: cp.config.OS.Verity''))
         | Some os \<Rightarrow>
            if Verity os \<noteq> None
            then onWorld (customizeVerityImageHelper E (buildDirAbs xb) (configPath xb)
                            (config xb) (rawImageFile xb) (rpmsSources xb)
                            (useBaseImageRpmRepos xb))
            else ret ())
        cp'd"
    by (auto split: option.splits
        intro!: keeps_lift keeps_ret keeps_onWorld addsOnly_customizeVerityImageHelper m)
qed

lemma addsOnly_andThen_result:
  assumes "addsOnly P m" and "\<And>x w w'. m w = (Inr x, w') \<Longrightarrow> addsOnly P (f x)"
  shows "addsOnly P (andThen m f)"
  unfolding addsOnly_def
proof
  fix w
  obtain r w1 where m: "m w = (r, w1)" by (cases "m w")
  from assms(1) m obtain t1 where t1: "trace w1 = trace w @ t1" "list_all P t1"
    unfolding addsOnly_def by (metis snd_conv)
  show "\<exists>t. trace (snd (andThen m f w)) = trace w @ t \<and> list_all P t"
  proof (cases r)
    case (Inl e)
    with m t1 show ?thesis by (auto simp: andThen_def)
  next
    case (Inr x)
    with m have "addsOnly P (f x)" by (auto intro: assms(2))
    then obtain t2 where "trace (snd (f x w1)) = trace w1 @ t2" "list_all P t2"
      unfolding addsOnly_def by blast
    with m t1 Inr show ?thesis
      by (auto simp: andThen_def intro!: exI [of _ "t1 @ t2"])
  qed
qed

lemma keeps_convertInputImageToWriteableFormat_emptyFormat:
  "keeps (emptyFormat img) (notOutput img) (convertInputImageToWriteableFormat E) cp"
  unfolding convertInputImageToWriteableFormat_def Let_def
  by (intro keeps_intros addsOnly_intros mundaneD [OF mundane_notOutput])
     (simp_all add: emptyFormat_def notOutput_def)

lemma keeps_convertWriteableFormatToOutputImage_emptyFormat:
  "keeps (emptyFormat img) (notOutput img) (convertWriteableFormatToOutputImage E) cp"
  unfolding convertWriteableFormatToOutputImage_def
  by (intro keeps_getCp) (simp add: emptyFormat_def format_names keeps_ret)

lemma initCommonParameters_emptyFormat:
  assumes "wrap pre (initCommonParameters E bdir img base cfg useBase rpms shrink splitFmt [] outFile) w
             = (Inr cp, w')"
  shows "emptyFormat img cp"
  using assms
  by (auto simp: initCommonParameters_def Let_def wrap_def wrapResult_def andThen_def lift_def
      ret_def extern_def ask_def emptyFormat_def split: option.splits if_splits)

lemma addsOnly_CustomizeImage_empty_format:
  "addsOnly (notOutput img)
     (CustomizeImage E bdir base cfg img rpms outFile [] splitFmt useBase shrink)"
  unfolding CustomizeImage_def
  apply (intro addsOnly_andThen_result addsOnly_wrap addsOnly_lift
      addsOnly_initCommonParameters [OF mundane_notOutput])
  apply (rule addsOnly_runWith [where I = "emptyFormat img"])
   apply (erule initCommonParameters_emptyFormat)
  apply (intro keeps_intros keeps_convertInputImageToWriteableFormat_emptyFormat
      keeps_customizeOSContents [OF mundane_notOutput]
      keeps_convertWriteableFormatToOutputImage_emptyFormat addsOnly_extern
      mundaneD [OF mundane_notOutput])
  apply (simp add: emptyFormat_def)
  done

lemma keeps_convertInputImageToWriteableFormat_customized:
  "keeps customizeOSPartitions notRecreate (convertInputImageToWriteableFormat E) cp"
  unfolding convertInputImageToWriteableFormat_def Let_def
  by (intro keeps_intros addsOnly_intros mundaneD [OF mundane_notRecreate])
     (simp_all add: notRecreate_def)

lemma keeps_convertWriteableFormatToOutputImage_customized:
  "keeps customizeOSPartitions notRecreate (convertWriteableFormatToOutputImage E) cp"
  unfolding convertWriteableFormatToOutputImage_def
  by (intro keeps_getCp keeps_if keeps_ret keeps_onWorld addsOnly_intros)
     (simp_all add: notRecreate_def)

lemma validateConfig_OS:
  "validateConfig E base cfg rpms useBase = Inr validated \<Longrightarrow> OS validated \<noteq> None"
  by (auto simp: validateConfig_def bindR_def Let_def split: sum.splits)

lemma initCommonParameters_customized:
  assumes "wrap pre (initCommonParameters E bdir img base cfg useBase rpms shrink splitFmt fmt outFile) w
             = (Inr cp, w')"
    and "OS cfg \<noteq> None"
  shows "customizeOSPartitions cp"
  using assms
  by (auto simp: initCommonParameters_def Let_def wrap_def wrapResult_def andThen_def lift_def
      ret_def extern_def ask_def split: option.splits if_splits sum.splits failure.splits)

lemma wrap_lift_Inr: "wrap pre (lift r) w = (Inr x, w') \<Longrightarrow> r = Inr x"
  by (auto simp: wrap_def lift_def wrapResult_def split: sum.splits failure.splits)

lemma addsOnly_CustomizeImage_notRecreate:
  "addsOnly notRecreate
     (CustomizeImage E bdir base cfg img rpms outFile fmt splitFmt useBase shrink)"
  unfolding CustomizeImage_def
  apply (intro addsOnly_andThen_result addsOnly_wrap addsOnly_lift
      addsOnly_initCommonParameters [OF mundane_notRecreate])
  apply (rule addsOnly_runWith [where I = customizeOSPartitions])
   apply (erule initCommonParameters_customized)
   apply (drule wrap_lift_Inr)
   apply (erule validateConfig_OS)
  apply (intro keeps_intros keeps_convertInputImageToWriteableFormat_customized
      keeps_customizeOSContents [OF mundane_notRecreate]
      keeps_convertWriteableFormatToOutputImage_customized addsOnly_extern
      mundaneD [OF mundane_notRecreate])
  apply simp
  done


section \<open>A configuration without an OS section\<close>

lemma validateConfig_nil_OS:
  assumes "OS cfg = None"
  shows "validateConfig E base cfg rpms useBase =
     (case failsWith E (ConfigIsValid cfg) of
        Some m \<Rightarrow> Inl (Error m)
      | None \<Rightarrow>
         (case validateIsoConfig E base (Iso cfg) of
            Inl e \<Rightarrow> Inl e
          | Inr _ \<Rightarrow> Inl (Panic ''nil pointer dereference: config.Packages'')))"
  using assms
  by (simp add: validateConfig_def validateSystemConfig_def validatePackageLists_def bindR_def
      ask_def Let_def split: option.splits sum.splits)

text \<open>
  Claim C7. For a configuration with a \<open>Storage\<close> section and no \<open>OS\<close> section,
  \<open>CustomizeImage\<close> returns the error of the structural check or of the check of the
  \<open>Iso\<close> section when one of them fails, and otherwise panics in
  \<open>validatePackageLists\<close>, which reads \<open>config.Packages\<close> through the \<open>nil\<close>
  pointer; nothing has been run by then. \<open>customizeOSContents\<close> on such a configuration
  never returns normally either, and when no call fails it panics reading
  \<open>cp.config.OS.Verity\<close>.
\<close>

theorem CustomizeImage_nil_OS:
  assumes "OS cfg = None" and "Storage cfg \<noteq> None"
  shows "CustomizeImage E bdir base cfg img rpms outFile outFmt splitFmt useBase shrink w =
       (case failsWith E (ConfigIsValid cfg) of
          Some m \<Rightarrow> Inl (Error (''invalid image config:'' @ [CHR 0x0A] @ m))
        | None \<Rightarrow>
           (case validateIsoConfig E base (Iso cfg) of
              Inl e \<Rightarrow> wrapResult (''invalid image config:'' @ [CHR 0x0A]) (Inl e)
            | Inr _ \<Rightarrow> Inl (Panic ''nil pointer dereference: config.Packages'')), w)
     \<and> (\<forall>cp w. config cp = cfg \<and> customizeOSPartitions cp
            \<longrightarrow> isl (fst (customizeOSContents E (cp, w))))
     \<and> (\<forall>cp w. config cp = cfg \<and> customizeOSPartitions cp \<and> (\<forall>c. failsWith E c = None)
            \<longrightarrow> fst (customizeOSContents E (cp, w)) =
                 Inl (Panic ''nil pointer dereference: cp.config.OS.Verity''))"
proof (intro conjI allI impI)
  show "CustomizeImage E bdir base cfg img rpms outFile outFmt splitFmt useBase shrink w =
       (case failsWith E (ConfigIsValid cfg) of
          Some m \<Rightarrow> Inl (Error (''invalid image config:'' @ [CHR 0x0A] @ m))
        | None \<Rightarrow>
           (case validateIsoConfig E base (Iso cfg) of
              Inl e \<Rightarrow> wrapResult (''invalid image config:'' @ [CHR 0x0A]) (Inl e)
            | Inr _ \<Rightarrow> Inl (Panic ''nil pointer dereference: config.Packages'')), w)"
    by (simp add: CustomizeImage_def validateConfig_nil_OS [OF assms(1)] andThen_def wrap_def
        lift_def wrapResult_def split: option.splits sum.splits failure.splits)
next
  fix cp :: CommonParameters and w :: world
  assume a: "config cp = cfg \<and> customizeOSPartitions cp"
  show "isl (fst (customizeOSContents E (cp, w)))"
    using a assms(1)
    by (auto simp: customizeOSContents_def andThen_def getCp_def setCp_def onWorld_def lift_def
        wrap_def ret_def split: prod.splits sum.splits)
next
  fix cp :: CommonParameters and w :: world
  assume a: "config cp = cfg \<and> customizeOSPartitions cp \<and> (\<forall>c. failsWith E c = None)"
  show "fst (customizeOSContents E (cp, w)) =
      Inl (Panic ''nil pointer dereference: cp.config.OS.Verity'')"
    using a assms(1)
    by (simp add: customizeOSContents_def andThen_def getCp_def setCp_def onWorld_def lift_def
        wrap_def wrapResult_def ret_def extern_def ask_def customizeImageHelper_def deferred_def
        shrinkFilesystemsHelper_def)
qed


theorem CustomizeImage_nil_OS_witness:
  "CustomizeImage buildEnv ''/build'' ''/cfg'' storageOnlyConfig ''/in/base.vhdx'' [''/rpms'']
     ''/out/image.vhdx'' ''vhdx'' [] False False emptyWorld =
     (Inl (Panic ''nil pointer dereference: config.Packages''), emptyWorld)
   \<and> isl (fst (customizeOSContents buildEnv (storageOnlyCp, emptyWorld)))
   \<and> fst (customizeOSContents buildEnv (storageOnlyCp, emptyWorld)) =
       Inl (Panic ''nil pointer dereference: cp.config.OS.Verity'')"
proof -
  have c: "OS storageOnlyConfig = None" "Storage storageOnlyConfig \<noteq> None"
    "Iso storageOnlyConfig = None"
    by (simp_all add: storageOnlyConfig_def)
  have e: "failsWith buildEnv c = None" for c
    by (simp add: buildEnv_def pkgEnv_def quietEnv_def)
  have p: "config storageOnlyCp = storageOnlyConfig" "customizeOSPartitions storageOnlyCp"
    by (simp_all add: storageOnlyCp_def)
  note t = CustomizeImage_nil_OS [OF c(1) c(2), where E = buildEnv]
  from t [where base = "''/cfg''"] have 1: "CustomizeImage buildEnv ''/build'' ''/cfg''
      storageOnlyConfig ''/in/base.vhdx'' [''/rpms''] ''/out/image.vhdx'' ''vhdx'' [] False False
      emptyWorld = (Inl (Panic ''nil pointer dereference: config.Packages''), emptyWorld)"
    by (simp add: e c validateIsoConfig_def)
  from t p e have 2: "isl (fst (customizeOSContents buildEnv (storageOnlyCp, emptyWorld)))"
    and 3: "fst (customizeOSContents buildEnv (storageOnlyCp, emptyWorld)) =
       Inl (Panic ''nil pointer dereference: cp.config.OS.Verity'')"
    by blast+
  from 1 2 3 show ?thesis by simp
qed

section \<open>An ISO input without customization\<close>

lemma customizeOSContents_uncustomized:
  "\<not> customizeOSPartitions cp \<Longrightarrow> customizeOSContents E (cp, w) = (Inr (), (cp, w))"
  by (simp add: customizeOSContents_def andThen_def getCp_def ret_def)

lemma convertInputImageToWriteableFormat_iso_uncustomized:
  assumes "filepathExt (inputImageFile cp) = ''.iso''" and "\<not> customizeOSPartitions cp"
    and "\<forall>c. failsWith E c = None"
  shows "convertInputImageToWriteableFormat E (cp, w) =
     (Inr (),
      (cp\<lparr>isoBuilder :=
            Some (IsoBuilderOf (str E (TempDir (buildDirAbs cp) ''expanded-input-iso-'')))\<rparr>,
       w\<lparr>trace := trace w @
          [TempDir (buildDirAbs cp) ''expanded-input-iso-'',
           CopyIsoImageContentsToFolder (buildDir cp) (inputImageFile cp)
             (str E (TempDir (buildDirAbs cp) ''expanded-input-iso-'')),
           IsoBuilderFromFolder (buildDir cp)
             (str E (TempDir (buildDirAbs cp) ''expanded-input-iso-''))]\<rparr>))"
  using assms
  by (simp add: convertInputImageToWriteableFormat_def andThen_def getCp_def setCp_def
      onWorld_def wrap_def wrapResult_def extern_def ask_def ret_def Let_def)

lemma convertWriteableFormatToOutputImage_iso_uncustomized:
  assumes "outputImageFormat cp = ImageFormatIso" and "\<not> customizeOSPartitions cp"
  shows "convertWriteableFormatToOutputImage E (cp, w) =
     (wrapResult (''failed to create LiveOS ISO:'' @ [CHR 0x0A])
        (ask E (RecreateLiveOSIsoImage (isoBuilder cp) (configPath cp) (Iso (config cp))
                  (outputImageDir cp) (outputImageBase cp))),
      (cp, w\<lparr>trace := trace w @
          [RecreateLiveOSIsoImage (isoBuilder cp) (configPath cp) (Iso (config cp))
             (outputImageDir cp) (outputImageBase cp)]\<rparr>))"
  using assms
  by (simp add: convertWriteableFormatToOutputImage_def andThen_def getCp_def onWorld_def
      wrap_def extern_def format_names)

text \<open>
  Claim C4. With an input \<open>.iso\<close> and neither a \<open>Storage\<close> nor an \<open>OS\<close> section the
  pipeline is to skip the writable raw image and to produce an ISO output by repackaging
  the artifacts of the expanded ISO. The three stages do that when they are run on
  parameters without customization (\<open>convertInputImageToWriteableFormat_iso_uncustomized\<close>,
  \<open>customizeOSContents_uncustomized\<close>,
  \<open>convertWriteableFormatToOutputImage_iso_uncustomized\<close>), but \<open>CustomizeImage\<close> never
  runs them so: validation comes first and reads \<open>config.Packages\<close> through the \<open>nil\<close>
  pointer of the missing \<open>OS\<close> section. On such an input the run panics before anything is
  expanded or written, and no run of \<open>CustomizeImage\<close> repackages an ISO at all
  (\<open>addsOnly_CustomizeImage_notRecreate\<close>).
\<close>

theorem CustomizeImage_iso_without_sections:
  "filepathExt ''/in/live.iso'' = ''.iso''
   \<and> Storage noSectionsConfig = None \<and> OS noSectionsConfig = None
   \<and> CustomizeImage buildEnv ''/build'' ''/cfg'' noSectionsConfig ''/in/live.iso'' []
        ''/out/live.iso'' ''iso'' [] False False emptyWorld =
       (Inl (Panic ''nil pointer dereference: config.Packages''), emptyWorld)"
proof -
  have e: "failsWith buildEnv c = None" for c
    by (simp add: buildEnv_def pkgEnv_def quietEnv_def)
  have v: "validateConfig buildEnv ''/cfg'' noSectionsConfig [] False =
      Inl (Panic ''nil pointer dereference: config.Packages'')"
    by (simp add: validateConfig_nil_OS noSectionsConfig_def e validateIsoConfig_def)
  have c: "CustomizeImage buildEnv ''/build'' ''/cfg'' noSectionsConfig ''/in/live.iso'' []
        ''/out/live.iso'' ''iso'' [] False False emptyWorld =
       (Inl (Panic ''nil pointer dereference: config.Packages''), emptyWorld)"
    by (simp add: CustomizeImage_def v andThen_def wrap_def wrapResult_def lift_def)
  have "filepathExt ''/in/live.iso'' = ''.iso''"
    by (simp add: filepathExt_def)
  with c show ?thesis
    by (simp add: noSectionsConfig_def)
qed

section \<open>The empty output format\<close>

lemmas monad_defs = andThen_def lift_def ret_def wrap_def wrapResult_def deferred_def
  extern_def ask_def onWorld_def getCp_def setCp_def runWith_def

lemma CustomizeImage_empty_format_succeeds:
  assumes v: "validateConfig E base cfg rpms useBase = Inr validated"
    and ok: "\<forall>c. failsWith E c = None"
    and os: "OS validated = Some os" "Verity os = None"
  shows "fst (CustomizeImage E bdir base cfg img rpms outFile [] splitFmt useBase shrink w) = Inr ()"
  using assms
  by (simp add: CustomizeImage_def initCommonParameters_def convertInputImageToWriteableFormat_def
      customizeOSContents_def convertWriteableFormatToOutputImage_def customizeImageHelper_def
      shrinkFilesystemsHelper_def extractPartitionsHelper_def monad_defs Let_def format_names)

lemma convertWriteableFormatToOutputImage_empty_format:
  "outputImageFormat cp = [] \<Longrightarrow> convertWriteableFormatToOutputImage E (cp, w) = (Inr (), (cp, w))"
  by (simp add: convertWriteableFormatToOutputImage_def andThen_def getCp_def ret_def
      format_names)

text \<open>
  Claim C10. With the empty string as output format, a run whose configuration passes
  validation, in which no call fails and which has no dm-verity to set up, returns
  without error. Whatever the environment, the calls it adds to the log hold no build of
  an ISO image and no \<open>qemu-img\<close> command but the conversion of the input to raw format:
  \<open>initCommonParameters\<close> does not look the empty format up, and
  \<open>convertWriteableFormatToOutputImage\<close> on it leaves parameters and world as they are.
\<close>

theorem CustomizeImage_empty_format:
  assumes "validateConfig E base cfg rpms useBase = Inr validated"
    and "\<forall>c. failsWith E c = None"
    and "OS validated = Some os" and "Verity os = None"
  shows "fst (CustomizeImage E bdir base cfg img rpms outFile [] splitFmt useBase shrink w) = Inr ()
     \<and> (\<exists>t. trace (snd (CustomizeImage E bdir base cfg img rpms outFile [] splitFmt useBase
                           shrink w)) = trace w @ t
            \<and> list_all (notOutput img) t)
     \<and> (\<forall>cp w. outputImageFormat cp = []
            \<longrightarrow> convertWriteableFormatToOutputImage E (cp, w) = (Inr (), (cp, w)))"
  using CustomizeImage_empty_format_succeeds [OF assms]
    addsOnly_CustomizeImage_empty_format [of img E bdir base cfg rpms outFile splitFmt useBase shrink]
    convertWriteableFormatToOutputImage_empty_format
  by (simp add: addsOnly_def)

theorem CustomizeImage_empty_format_witness:
  "fst (CustomizeImage buildEnv ''/build'' ''/cfg'' (pkgConfig [] None) ''/in/base.vhdx'' []
          ''/out/image.vhdx'' [] [] False False emptyWorld) = Inr ()
   \<and> list_all (notOutput ''/in/base.vhdx'')
        (trace (snd (CustomizeImage buildEnv ''/build'' ''/cfg'' (pkgConfig [] None)
                       ''/in/base.vhdx'' [] ''/out/image.vhdx'' [] [] False False emptyWorld)))
   \<and> trace (snd (CustomizeImage buildEnv ''/build'' ''/cfg'' (pkgConfig [] None)
                       ''/in/base.vhdx'' [] ''/out/image.vhdx'' [] [] False False emptyWorld)) =
       [MkdirAll ''/build'', MkdirAll ''/out'',
        Exec [''qemu-img'', ''convert'', ''-O'', ''raw'', ''/in/base.vhdx'', ''/build/image.raw''],
        CustomizePartitions ''/build'' ''/cfg'' (pkgConfig [] None) ''/build/image.raw'',
        ConnectToExistingImage ''/build/image.raw'' ''/build'' ''imageroot'',
        DoCustomizations ''/build'' ''/cfg'' (pkgConfig [] None) ''/build/image.raw'' [] False True,
        ImageConnectionCleanClose ''/build/image.raw'',
        ImageConnectionClose ''/build/image.raw'',
        CheckFileSystems ''/build/image.raw'',
        RemoveFileIfExists ''/build/image.raw'']"
proof -
  have e: "failsWith buildEnv c = None" "validateIsoConfig buildEnv b None = Inr ()"
    "collectPackagesList buildEnv b ls ps = Inr ps" for c b ls ps
    by (simp_all add: buildEnv_def pkgEnv_def quietEnv_def validateIsoConfig_def
        collectPackagesList_def)
  have v: "validateConfig buildEnv ''/cfg'' (pkgConfig [] None) [] False = Inr (pkgConfig [] None)"
    by (simp add: validateConfig_def validateSystemConfig_def validatePackageLists_def bindR_def
        ask_def e pkgConfig_def hasPartitionCustomizations_def validateAdditionalFiles_def)
  have o: "OS (pkgConfig [] None) = Some (the (OS (pkgConfig [] None)))"
    "Verity (the (OS (pkgConfig [] None))) = None"
    by (simp_all add: pkgConfig_def)
  note t = CustomizeImage_empty_format [OF v _ o, where bdir = "''/build''"
      and img = "''/in/base.vhdx''" and outFile = "''/out/image.vhdx''" and splitFmt = "[]"
      and shrink = False and w = emptyWorld]
  have tr: "trace (snd (CustomizeImage buildEnv ''/build'' ''/cfg'' (pkgConfig [] None)
                       ''/in/base.vhdx'' [] ''/out/image.vhdx'' [] [] False False emptyWorld)) =
       [MkdirAll ''/build'', MkdirAll ''/out'',
        Exec [''qemu-img'', ''convert'', ''-O'', ''raw'', ''/in/base.vhdx'', ''/build/image.raw''],
        CustomizePartitions ''/build'' ''/cfg'' (pkgConfig [] None) ''/build/image.raw'',
        ConnectToExistingImage ''/build/image.raw'' ''/build'' ''imageroot'',
        DoCustomizations ''/build'' ''/cfg'' (pkgConfig [] None) ''/build/image.raw'' [] False True,
        ImageConnectionCleanClose ''/build/image.raw'',
        ImageConnectionClose ''/build/image.raw'',
        CheckFileSystems ''/build/image.raw'',
        RemoveFileIfExists ''/build/image.raw'']"
    by code_simp
  from t e(1) have "fst (CustomizeImage buildEnv ''/build'' ''/cfg'' (pkgConfig [] None)
      ''/in/base.vhdx'' [] ''/out/image.vhdx'' [] [] False False emptyWorld) = Inr ()"
    and "list_all (notOutput ''/in/base.vhdx'')
        (trace (snd (CustomizeImage buildEnv ''/build'' ''/cfg'' (pkgConfig [] None)
                       ''/in/base.vhdx'' [] ''/out/image.vhdx'' [] [] False False emptyWorld)))"
    by (auto simp: emptyWorld_def)
  with tr show ?thesis by simp
qed



section \<open>The media check at boot\<close>

text \<open>
  Claim C8, as the code has it. The self-test runs exactly when \<open>getarg\<close> finds
  \<open>rd.live.check\<close> and the variable \<open>check\<close> is not empty, which the script sets to
  \<open>yes\<close> when the live device is a block device that reports \<open>iso9660\<close> or \<open>udf\<close>.
  Then the splash is hidden when \<open>plymouth\<close> is there, the tool is run, through
  \<open>systemctl start\<close> of its unit when \<open>DRACUT_SYSTEMD\<close> is set and directly otherwise,
  and the exit status 1 ends the boot with \<open>CD check failed!\<close>; after any other status
  the splash is shown again and the boot goes on. Without the argument nothing is run.
\<close>

theorem mediaCheck_runs:
  "mediaCheck M livedev =
     (if getargCheck M
         \<and> ((if isBlockDevice M then blkidType M else fsOnEntry M) \<in> {''iso9660'', ''udf''}
              \<or> checkOnEntry M \<noteq> [])
      then
        (if exitStatus M (if DRACUT_SYSTEMD M \<noteq> []
                          then SystemctlStart (''checkisomd5@'' @ dev_unit_name M @ ''.service'')
                          else Checkisomd5Verbose livedev) = 1
         then ((if havePlymouth M then [PlymouthHideSplash] else [])
               @ [if DRACUT_SYSTEMD M \<noteq> []
                  then SystemctlStart (''checkisomd5@'' @ dev_unit_name M @ ''.service'')
                  else Checkisomd5Verbose livedev],
               Die ''CD check failed!'')
         else ((if havePlymouth M then [PlymouthHideSplash] else [])
               @ [if DRACUT_SYSTEMD M \<noteq> []
                  then SystemctlStart (''checkisomd5@'' @ dev_unit_name M @ ''.service'')
                  else Checkisomd5Verbose livedev]
               @ (if havePlymouth M then [PlymouthShowSplash] else []),
               Continue))
      else ([], Continue))"
  by (simp add: mediaCheck_def Let_def)

theorem mediaCheck_runs_witness:
  "mediaCheck (cdMachine True 1) ''/dev/sr0'' =
     ([PlymouthHideSplash, SystemctlStart ''checkisomd5@dev-sr0.service''],
      Die ''CD check failed!'')
   \<and> mediaCheck (cdMachine True 0) ''/dev/sr0'' =
     ([PlymouthHideSplash, SystemctlStart ''checkisomd5@dev-sr0.service'', PlymouthShowSplash],
      Continue)"
  using mediaCheck_runs [of "cdMachine True 1" "''/dev/sr0''"]
    mediaCheck_runs [of "cdMachine True 0" "''/dev/sr0''"]
  by (simp add: cdMachine_def)

text \<open>
  Claim C8, as it is worded, fails twice. The live device reports \<open>iso9660\<close> and the
  argument is not given: no self-test runs. The argument is given and the verification
  ends with the status 2, which is not zero: the boot goes on.
\<close>

theorem mediaCheck_counterexample:
  "blkidType (cdMachine False 1) = ''iso9660''
   \<and> mediaCheck (cdMachine False 1) ''/dev/sr0'' = ([], Continue)
   \<and> exitStatus (cdMachine True 2) (SystemctlStart ''checkisomd5@dev-sr0.service'') \<noteq> 0
   \<and> mediaCheck (cdMachine True 2) ''/dev/sr0'' =
     ([PlymouthHideSplash, SystemctlStart ''checkisomd5@dev-sr0.service'', PlymouthShowSplash],
      Continue)"
  by (simp add: mediaCheck_def cdMachine_def Let_def)

section \<open>The size of the temporary overlay\<close>

lemma shTimes_exact:
  assumes "- (2 ^ 63) \<le> a * b" and "a * b < 2 ^ 63"
  shows "shTimes a b = a * b"
proof -
  have "shTimes a b = signed_take_bit 63 (a * b)"
    by (simp add: shTimes_def signed_of_int flip: of_int_mult)
  also have "\<dots> = a * b"
    using assms by (rule signed_take_bit_int_eq_self)
  finally show ?thesis .
qed

text \<open>
  Claim C9. For every size from 0 to \<open>2^43 - 1\<close> MiB, the sizes whose byte count is a
  file offset, the file \<open>/overlay\<close> gets the apparent size of exactly the given number
  times 1024 times 1024 bytes, and without the argument that of 32768 MiB, which is
  34359738368 bytes.
\<close>

theorem overlayFileSize_exact:
  "(0 \<le> n \<and> n < 2 ^ 43 \<longrightarrow> overlayFileSize (Some n) = Some (n * 1024 * 1024))
   \<and> overlayFileSize None = Some 34359738368"
proof (intro conjI impI)
  assume n: "0 \<le> n \<and> n < 2 ^ 43"
  then have "shTimes n 1024 = n * 1024"
    by (intro shTimes_exact) simp_all
  with n show "overlayFileSize (Some n) = Some (n * 1024 * 1024)"
    by (simp add: overlayFileSize_def overlay_size_def ddSeek_def)
next
  have "shTimes 32768 1024 = 32768 * 1024"
    by (intro shTimes_exact) simp_all
  then show "overlayFileSize None = Some 34359738368"
    by (simp add: overlayFileSize_def overlay_size_def ddSeek_def)
qed

theorem overlayFileSize_exact_witness:
  "(0::int) \<le> 512 \<and> (512::int) < 2 ^ 43 \<and> overlayFileSize (Some 512) = Some 536870912
   \<and> overlayFileSize None = Some 34359738368"
  using overlayFileSize_exact [of 512] by simp

text \<open>
  Beyond that range no file can have the size: for \<open>2^54 + 1\<close> MiB the product with 1024
  wraps around to 1024 and the file gets one MiB.
\<close>

lemma overlayFileSize_wraps:
  "overlayFileSize (Some 18014398509481985) = Some 1048576"
  by (simp add: overlayFileSize_def overlay_size_def ddSeek_def shTimes_def)

end
